theory Spec2Isabelle
  imports Main
begin

section \<open>JavaScript values and thrown errors\<close>

text \<open>
  Token headers and claim sets are JSON objects. A JSON object is kept as an association
  list, read with \<open>map_of\<close>; a key that is absent reads as JavaScript's \<open>undefined\<close>,
  which is \<open>None\<close> here. Numbers are the integers (NumericDate values are whole seconds).
\<close>

datatype json =
    JNull
  | JBool bool
  | JNum int
  | JStr string
  | JArr "json list"
  | JObj "(string \<times> json) list"

text \<open>JavaScript truthiness of a possibly undefined JSON value.\<close>

fun truthy :: "json option \<Rightarrow> bool" where
  "truthy None = False"
| "truthy (Some JNull) = False"
| "truthy (Some (JBool b)) = b"
| "truthy (Some (JNum i)) = (i \<noteq> 0)"
| "truthy (Some (JStr s)) = (s \<noteq> [])"
| "truthy (Some (JArr xs)) = True"
| "truthy (Some (JObj kvs)) = True"

text \<open>\<open>x || d\<close> for a possibly undefined JSON value \<open>x\<close> and a default \<open>d\<close>.\<close>

definition or_else :: "json option \<Rightarrow> json \<Rightarrow> json" where
  "or_else x d = (case x of None \<Rightarrow> d | Some v \<Rightarrow> if truthy (Some v) then v else d)"

text \<open>\<open>s || d\<close> for a possibly undefined string \<open>s\<close>.\<close>

definition str_or :: "string option \<Rightarrow> string \<Rightarrow> string" where
  "str_or x d = (case x of None \<Rightarrow> d | Some s \<Rightarrow> if s = [] then d else s)"

text \<open>
  The error classes of the jose library that the services can meet, and the values the
  services throw: a plain \<open>Error\<close> with its message, an error raised by jose, or a
  fault of the file system.
\<close>

datatype jose_error =
    JWSInvalid
  | JWSSignatureVerificationFailed
  | JOSENotSupported
  | JOSEAlgNotAllowed
  | JWTInvalid
  | JWTClaimValidationFailed
  | JWTExpired
  | TypeError

datatype exn =
    Error string
  | Jose jose_error
  | FsError

section \<open>The jose library\<close>

text \<open>
  jose is an external dependency of the services. Its byte-level and cryptographic
  primitives are parameters of the model, collected in one record; what the library builds
  on them (the compact serialisation, the validation of header and claims, the error class
  thrown at each step) is written out as functions in the sections on signing and
  verifying, following the library's behaviour with the options the services pass.

  \<^item> \<open>jose_encode v\<close> is the base64url text of \<open>JSON.stringify v\<close>;
  \<^item> \<open>jose_base64url_decode\<close> and \<open>jose_JSON_parse\<close> undo it in two steps, with
    \<open>None\<close> where the library's step throws;
  \<^item> \<open>jose_sign alg key data\<close> is the base64url signature of the signing input, and
    \<open>jose_verify alg key signature data\<close> the outcome of the key check, the decoding of
    the signature and the cryptographic verification;
  \<^item> \<open>jose_secs\<close> parses a time span such as \<open>1h\<close> into seconds, \<open>None\<close> where it
    throws;
  \<^item> \<open>jose_generateKeyPair alg modulusLength extractable seed\<close> yields the public and
    the private key, \<open>seed\<close> standing for the randomness consumed;
  \<^item> the import and export functions convert between keys and their PEM or JWK form.
\<close>

record jwk =
  jwk_kty :: "string option"
  jwk_n :: "string option"
  jwk_e :: "string option"
  jwk_d :: "string option"
  jwk_p :: "string option"
  jwk_q :: "string option"
  jwk_dp :: "string option"
  jwk_dq :: "string option"
  jwk_qi :: "string option"

record 'k jose =
  jose_encode :: "json \<Rightarrow> string"
  jose_base64url_decode :: "string \<Rightarrow> string option"
  jose_JSON_parse :: "string \<Rightarrow> json option"
  jose_sign :: "string \<Rightarrow> 'k \<Rightarrow> string \<Rightarrow> jose_error + string"
  jose_verify :: "string \<Rightarrow> 'k \<Rightarrow> string \<Rightarrow> string \<Rightarrow> jose_error + bool"
  jose_secs :: "string \<Rightarrow> int option"
  jose_generateKeyPair :: "string \<Rightarrow> nat \<Rightarrow> bool \<Rightarrow> nat \<Rightarrow> jose_error + ('k \<times> 'k)"
  jose_exportPKCS8 :: "'k \<Rightarrow> jose_error + string"
  jose_exportSPKI :: "'k \<Rightarrow> jose_error + string"
  jose_importPKCS8 :: "string \<Rightarrow> string \<Rightarrow> jose_error + 'k"
  jose_importSPKI :: "string \<Rightarrow> string \<Rightarrow> jose_error + 'k"
  jose_exportJWK :: "'k \<Rightarrow> jose_error + jwk"

section \<open>The file system\<close>

text \<open>
  The key directory as \<open>fs/promises\<close> shows it: the files with their contents, the
  directories, and the faults a call can meet (a path that \<open>access\<close> cannot reach, a path
  that cannot be read, a path that cannot be written, a directory that cannot be created).
\<close>

record fs =
  files :: "string \<rightharpoonup> string"
  dirs :: "string list"
  access_faults :: "string list"
  read_faults :: "string list"
  write_faults :: "string list"
  mkdir_fault :: bool

definition fs_access :: "fs \<Rightarrow> string \<Rightarrow> bool" where
  "fs_access f p =
     (if p \<in> set (access_faults f) then False
      else (case files f p of Some c \<Rightarrow> True | None \<Rightarrow> p \<in> set (dirs f)))"

definition fs_mkdir :: "fs \<Rightarrow> string \<Rightarrow> (exn + unit) \<times> fs" where
  "fs_mkdir f p =
     (if mkdir_fault f then (Inl FsError, f) else (Inr (), f\<lparr>dirs := p # dirs f\<rparr>))"

definition fs_readFile :: "fs \<Rightarrow> string \<Rightarrow> exn + string" where
  "fs_readFile f p =
     (if p \<in> set (read_faults f) then Inl FsError
      else case files f p of None \<Rightarrow> Inl FsError | Some c \<Rightarrow> Inr c)"

definition fs_writeFile :: "fs \<Rightarrow> string \<Rightarrow> string \<Rightarrow> (exn + unit) \<times> fs" where
  "fs_writeFile f p c =
     (if p \<in> set (write_faults f) then (Inl FsError, f)
      else (Inr (), f\<lparr>files := (files f)(p \<mapsto> c)\<rparr>))"

text \<open>\<open>path.join\<close> of a directory and a file name (normalisation of the result is left out).\<close>

definition path_join :: "string \<Rightarrow> string \<Rightarrow> string" where
  "path_join d name = d @ ''/'' @ name"

text \<open>\<open>process.env.NAME || dflt\<close>.\<close>

definition env_or :: "(string \<rightharpoonup> string) \<Rightarrow> string \<Rightarrow> string \<Rightarrow> string" where
  "env_or env name dflt = str_or (env name) dflt"

section \<open>KeyService\<close>

record 'k KeyService =
  privateKey :: "'k option"
  publicKey :: "'k option"
  keyId :: string
  keysDir :: string

definition new_KeyService :: "(string \<rightharpoonup> string) \<Rightarrow> 'k KeyService" where
  "new_KeyService env =
     \<lparr>privateKey = None, publicKey = None, keyId = ''default-key-id'',
      keysDir = env_or env ''KEYS_DIR'' ''./keys''\<rparr>"

definition getPrivateKeyPath :: "'k KeyService \<Rightarrow> string" where
  "getPrivateKeyPath ks = path_join (keysDir ks) ''private-key.pem''"

definition getPublicKeyPath :: "'k KeyService \<Rightarrow> string" where
  "getPublicKeyPath ks = path_join (keysDir ks) ''public-key.pem''"

definition ensureKeysDirectory :: "'k KeyService \<Rightarrow> fs \<Rightarrow> (exn + unit) \<times> fs" where
  "ensureKeysDirectory ks f =
     (if fs_access f (keysDir ks) then (Inr (), f) else fs_mkdir f (keysDir ks))"

definition fileExists :: "fs \<Rightarrow> string \<Rightarrow> bool" where
  "fileExists f p = fs_access f p"

text \<open>
  \<open>loadKeys\<close> reads both files, then imports the private key and assigns it, then
  imports the public key and assigns it. An exception leaves the assignments made so far.
\<close>

definition loadKeys :: "'k jose \<Rightarrow> 'k KeyService \<Rightarrow> fs \<Rightarrow> (exn + unit) \<times> 'k KeyService" where
  "loadKeys L ks f =
     (case fs_readFile f (getPrivateKeyPath ks) of
        Inl e \<Rightarrow> (Inl e, ks)
      | Inr privateKeyPem \<Rightarrow>
          (case fs_readFile f (getPublicKeyPath ks) of
             Inl e \<Rightarrow> (Inl e, ks)
           | Inr publicKeyPem \<Rightarrow>
               (case jose_importPKCS8 L privateKeyPem ''RS256'' of
                  Inl e \<Rightarrow> (Inl (Jose e), ks)
                | Inr priv \<Rightarrow>
                    (case jose_importSPKI L publicKeyPem ''RS256'' of
                       Inl e \<Rightarrow> (Inl (Jose e), ks\<lparr>privateKey := Some priv\<rparr>)
                     | Inr pub \<Rightarrow>
                         (Inr (), ks\<lparr>privateKey := Some priv, publicKey := Some pub\<rparr>)))))"

text \<open>
  \<open>generateKeyPair\<close> assigns the fresh pair first. Exporting and writing run inside a
  \<open>try\<close> whose \<open>catch\<close> only logs, so each failure there ends the method normally.
\<close>

definition generateKeyPair ::
  "'k jose \<Rightarrow> 'k KeyService \<Rightarrow> fs \<Rightarrow> nat \<Rightarrow> (exn + unit) \<times> 'k KeyService \<times> fs" where
  "generateKeyPair L ks f seed =
     (case jose_generateKeyPair L ''RS256'' 2048 True seed of
        Inl e \<Rightarrow> (Inl (Jose e), ks, f)
      | Inr (pub, priv) \<Rightarrow>
          (let ks' = ks\<lparr>privateKey := Some priv, publicKey := Some pub\<rparr> in
           case jose_exportPKCS8 L priv of
             Inl e \<Rightarrow> (Inr (), ks', f)
           | Inr privateKeyPem \<Rightarrow>
               (case jose_exportSPKI L pub of
                  Inl e \<Rightarrow> (Inr (), ks', f)
                | Inr publicKeyPem \<Rightarrow>
                    (case fs_writeFile f (getPrivateKeyPath ks) privateKeyPem of
                       (Inl e, f1) \<Rightarrow> (Inr (), ks', f1)
                     | (Inr u, f1) \<Rightarrow>
                         (case fs_writeFile f1 (getPublicKeyPath ks) publicKeyPem of
                            (Inl e, f2) \<Rightarrow> (Inr (), ks', f2)
                          | (Inr u, f2) \<Rightarrow> (Inr (), ks', f2))))))"

definition initializeKeys ::
  "'k jose \<Rightarrow> 'k KeyService \<Rightarrow> fs \<Rightarrow> nat \<Rightarrow> (exn + unit) \<times> 'k KeyService \<times> fs" where
  "initializeKeys L ks f seed =
     (case ensureKeysDirectory ks f of
        (Inl e, f1) \<Rightarrow> (Inl e, ks, f1)
      | (Inr u, f1) \<Rightarrow>
          (let privateKeyExists = fileExists f1 (getPrivateKeyPath ks);
               publicKeyExists = fileExists f1 (getPublicKeyPath ks)
           in if privateKeyExists \<and> publicKeyExists
              then (case loadKeys L ks f1 of (r, ks') \<Rightarrow> (r, ks', f1))
              else generateKeyPair L ks f1 seed))"

definition getPrivateKey :: "'k KeyService \<Rightarrow> exn + 'k" where
  "getPrivateKey ks =
     (case privateKey ks of
        None \<Rightarrow> Inl (Error ''Private key not initialized'')
      | Some k \<Rightarrow> Inr k)"

definition getPublicKey :: "'k KeyService \<Rightarrow> exn + 'k" where
  "getPublicKey ks =
     (case publicKey ks of
        None \<Rightarrow> Inl (Error ''Public key not initialized'')
      | Some k \<Rightarrow> Inr k)"

definition getKeyId :: "'k KeyService \<Rightarrow> string" where
  "getKeyId ks = keyId ks"

record JWKSKey =
  k_kty :: string
  k_use :: string
  k_key_ops :: "string list"
  k_alg :: string
  k_kid :: string
  k_n :: string
  k_e :: string

record JWKS =
  jwks_keys :: "JWKSKey list"

definition toJWKSKey :: "string \<Rightarrow> jwk \<Rightarrow> JWKSKey" where
  "toJWKSKey kid k =
     \<lparr>k_kty = str_or (jwk_kty k) ''RSA'', k_use = ''sig'', k_key_ops = [''verify''],
      k_alg = ''RS256'', k_kid = kid, k_n = str_or (jwk_n k) [], k_e = str_or (jwk_e k) []\<rparr>"

text \<open>
  \<open>getJWKS\<close> exports the public key and builds the document on every call; the class has
  no field that could keep a document. The number threaded through counts the calls of
  \<open>jose.exportJWK\<close> made so far.
\<close>

definition getJWKS :: "'k jose \<Rightarrow> 'k KeyService \<Rightarrow> nat \<Rightarrow> (exn + JWKS) \<times> nat" where
  "getJWKS L ks exports =
     (case publicKey ks of
        None \<Rightarrow> (Inl (Error ''Public key not initialized''), exports)
      | Some k \<Rightarrow>
          (case jose_exportJWK L k of
             Inl e \<Rightarrow> (Inl (Jose e), Suc exports)
           | Inr j \<Rightarrow> (Inr \<lparr>jwks_keys = [toJWKSKey (keyId ks) j]\<rparr>, Suc exports)))"

section \<open>Strings and numbers\<close>

text \<open>\<open>String.prototype.split('.')\<close>: the segments between the dots, at least one.\<close>

fun split_dot :: "string \<Rightarrow> string list" where
  "split_dot [] = [[]]"
| "split_dot (c # cs) =
     (if c = CHR ''.'' then [] # split_dot cs
      else (case split_dot cs of [] \<Rightarrow> [[c]] | w # ws \<Rightarrow> (c # w) # ws))"

definition count_dots :: "string \<Rightarrow> nat" where
  "count_dots s = length (filter (\<lambda>c. c = CHR ''.'') s)"

definition is_ws :: "char \<Rightarrow> bool" where
  "is_ws c = (c = CHR '' '' \<or> c = CHR 0x09 \<or> c = CHR 0x0A \<or> c = CHR 0x0B \<or> c = CHR 0x0C
     \<or> c = CHR 0x0D)"

definition digit_val :: "char \<Rightarrow> nat option" where
  "digit_val c =
     (let v = (of_char c :: nat) in
      if 48 \<le> v \<and> v \<le> 57 then Some (v - 48)
      else if 97 \<le> v \<and> v \<le> 102 then Some (v - 87)
      else if 65 \<le> v \<and> v \<le> 70 then Some (v - 55)
      else None)"

definition is_digit :: "nat \<Rightarrow> char \<Rightarrow> bool" where
  "is_digit radix c = (case digit_val c of None \<Rightarrow> False | Some v \<Rightarrow> v < radix)"

definition digits_value :: "nat \<Rightarrow> string \<Rightarrow> nat" where
  "digits_value radix ds = foldl (\<lambda>a c. a * radix + (case digit_val c of None \<Rightarrow> 0 | Some v \<Rightarrow> v)) 0 ds"

text \<open>
  \<open>parseInt(str)\<close> with no radix: leading white space is skipped, a sign is read, a
  \<open>0x\<close> prefix selects base 16, and the longest run of digits is the value; no digit
  gives NaN, which is \<open>None\<close>. The value is kept exact (no rounding to a double).
\<close>

definition parseInt :: "string \<Rightarrow> int option" where
  "parseInt str =
     (let s = dropWhile is_ws str;
          neg = (take 1 s = ''-'');
          s1 = (if take 1 s = ''-'' \<or> take 1 s = ''+'' then drop 1 s else s);
          radix = (if take 2 s1 = ''0x'' \<or> take 2 s1 = ''0X'' then 16 else 10);
          s2 = (if radix = 16 then drop 2 s1 else s1);
          z = takeWhile (is_digit radix) s2
      in if z = [] then None
         else Some ((if neg then - 1 else 1) * int (digits_value radix z)))"

definition toLowerCase :: "string \<Rightarrow> string" where
  "toLowerCase s =
     map (\<lambda>c. let v = (of_char c :: nat) in
               if 65 \<le> v \<and> v \<le> 90 then char_of (v + 32) else c) s"

text \<open>\<open>s.slice(-1)\<close>: the last character as a string, empty for the empty string.\<close>

definition slice_last :: "string \<Rightarrow> string" where
  "slice_last s = (if s = [] then [] else [last s])"

text \<open>A JavaScript number that is an integer or NaN.\<close>

datatype number = NaN | Number int

definition times :: "int option \<Rightarrow> int \<Rightarrow> number" where
  "times v k = (case v of None \<Rightarrow> NaN | Some i \<Rightarrow> Number (i * k))"

section \<open>JWTService\<close>

record JWTService =
  issuer :: string
  audience :: string
  expirationTime :: string

definition new_JWTService :: "(string \<rightharpoonup> string) \<Rightarrow> JWTService" where
  "new_JWTService env =
     \<lparr>issuer = env_or env ''JWT_ISSUER'' ''jwt-generator-app'',
      audience = env_or env ''JWT_AUDIENCE'' ''jwt-generator-api'',
      expirationTime = env_or env ''JWT_EXPIRATION'' ''1h''\<rparr>"

definition calculateExpirationSeconds :: "string \<Rightarrow> number" where
  "calculateExpirationSeconds expiration =
     (let timeValue = parseInt expiration;
          timeUnit = toLowerCase (slice_last expiration)
      in if timeUnit = ''s'' then times timeValue 1
         else if timeUnit = ''m'' then times timeValue 60
         else if timeUnit = ''h'' then times timeValue (60 * 60)
         else if timeUnit = ''d'' then times timeValue (24 * 60 * 60)
         else Number 3600)"

text \<open>The claims the caller supplies, and the response of an issuance.\<close>

record TokenClaims =
  c_sub :: string
  c_username :: string
  c_email :: string

record TokenResponse =
  access_token :: string
  token_type :: string
  expires_in :: number

text \<open>
  The object \<open>verifyToken\<close> returns. The fields hold whatever JSON value the expression
  of the source yields; \<open>iat\<close>, \<open>exp\<close> and \<open>iss\<close> are copied and may be undefined.
\<close>

record JWTPayload =
  p_sub :: json
  p_username :: json
  p_email :: json
  p_iat :: "json option"
  p_exp :: "json option"
  p_iss :: "json option"
  p_aud :: json

subsection \<open>Signing with jose\<close>

definition protectedHeader :: "string \<Rightarrow> json" where
  "protectedHeader kid =
     JObj [(''alg'', JStr ''RS256''), (''typ'', JStr ''JWT''), (''kid'', JStr kid)]"

text \<open>
  The claim set \<open>SignJWT\<close> holds when \<open>sign\<close> is called: the caller's claims, then
  \<open>iat\<close>, \<open>iss\<close>, \<open>aud\<close> and \<open>exp\<close>. The builder reads the clock twice: \<open>setIssuedAt\<close>
  stores the second it reads, \<open>t_iat\<close>, and \<open>setExpirationTime\<close> stores the second it reads,
  \<open>t_exp\<close>, plus the parsed time span. The two reads are separate parameters; the second one
  is never earlier than the first, and it is later when the clock ticks between the calls.
\<close>

definition claimsFields ::
  "JWTService \<Rightarrow> int \<Rightarrow> int \<Rightarrow> int \<Rightarrow> TokenClaims \<Rightarrow> (string \<times> json) list" where
  "claimsFields svc t_iat t_exp span c =
     [(''sub'', JStr (c_sub c)), (''username'', JStr (c_username c)),
      (''email'', JStr (c_email c)), (''iat'', JNum t_iat),
      (''iss'', JStr (issuer svc)), (''aud'', JStr (audience svc)),
      (''exp'', JNum (t_exp + span))]"

definition claimsSet :: "JWTService \<Rightarrow> int \<Rightarrow> int \<Rightarrow> int \<Rightarrow> TokenClaims \<Rightarrow> json" where
  "claimsSet svc t_iat t_exp span c = JObj (claimsFields svc t_iat t_exp span c)"

text \<open>Compact serialisation: header, payload and signature, joined by dots.\<close>

definition compactSign :: "'k jose \<Rightarrow> string \<Rightarrow> json \<Rightarrow> json \<Rightarrow> 'k \<Rightarrow> jose_error + string" where
  "compactSign L alg hdr payload key =
     (let signing_input = jose_encode L hdr @ ''.'' @ jose_encode L payload in
      case jose_sign L alg key signing_input of
        Inl e \<Rightarrow> Inl e
      | Inr signature \<Rightarrow> Inr (signing_input @ ''.'' @ signature))"

definition generateToken ::
  "'k jose \<Rightarrow> JWTService \<Rightarrow> 'k KeyService \<Rightarrow> int \<Rightarrow> int \<Rightarrow> TokenClaims
     \<Rightarrow> exn + TokenResponse" where
  "generateToken L svc ks t_iat t_exp c =
     (case getPrivateKey ks of
        Inl e \<Rightarrow> Inl (Error ''Token generation failed'')
      | Inr key \<Rightarrow>
          (case jose_secs L (expirationTime svc) of
             None \<Rightarrow> Inl (Error ''Token generation failed'')
           | Some span \<Rightarrow>
               (case compactSign L ''RS256'' (protectedHeader (getKeyId ks))
                       (claimsSet svc t_iat t_exp span c) key of
                  Inl e \<Rightarrow> Inl (Error ''Token generation failed'')
                | Inr jwt \<Rightarrow>
                    Inr \<lparr>access_token = jwt, token_type = ''Bearer'',
                         expires_in = calculateExpirationSeconds (expirationTime svc)\<rparr>)))"

subsection \<open>Verifying with jose\<close>

definition decode_json :: "'k jose \<Rightarrow> string \<Rightarrow> json option" where
  "decode_json L s =
     (case jose_base64url_decode L s of None \<Rightarrow> None | Some b \<Rightarrow> jose_JSON_parse L b)"

text \<open>
  The \<open>crit\<close> header: absent, or a non-empty array of non-empty strings, each a recognised
  extension (only \<open>b64\<close> is) that the header carries. The result tells whether \<open>b64\<close> is
  critical.
\<close>

fun crit_params :: "(string \<rightharpoonup> json) \<Rightarrow> json list \<Rightarrow> jose_error option" where
  "crit_params hdr [] = None"
| "crit_params hdr (p # ps) =
     (if p \<noteq> JStr ''b64'' then Some JOSENotSupported
      else if hdr ''b64'' = None then Some JWSInvalid
      else crit_params hdr ps)"

definition nonempty_string :: "json \<Rightarrow> bool" where
  "nonempty_string v = (case v of JStr s \<Rightarrow> s \<noteq> [] | _ \<Rightarrow> False)"

definition validateCrit :: "(string \<times> json) list \<Rightarrow> jose_error + bool" where
  "validateCrit hdr =
     (case map_of hdr ''crit'' of
        None \<Rightarrow> Inr False
      | Some (JArr xs) \<Rightarrow>
          if xs = [] then Inl JWSInvalid
          else if \<not> list_all nonempty_string xs then Inl JWSInvalid
          else (case crit_params (map_of hdr) xs of Some e \<Rightarrow> Inl e | None \<Rightarrow> Inr True)
      | Some other \<Rightarrow> Inl JWSInvalid)"

text \<open>Whether the payload is base64url encoded: yes unless a critical \<open>b64\<close> says no.\<close>

definition b64_flag :: "(string \<times> json) list \<Rightarrow> bool \<Rightarrow> jose_error + bool" where
  "b64_flag hdr critical =
     (if critical
      then (case map_of hdr ''b64'' of Some (JBool b) \<Rightarrow> Inr b | other \<Rightarrow> Inl JWSInvalid)
      else Inr True)"

definition header_alg :: "(string \<times> json) list \<Rightarrow> jose_error + string" where
  "header_alg hdr =
     (case map_of hdr ''alg'' of
        Some (JStr alg) \<Rightarrow> if alg = [] then Inl JWSInvalid else Inr alg
      | other \<Rightarrow> Inl JWSInvalid)"

definition parse_protected :: "'k jose \<Rightarrow> string \<Rightarrow> jose_error + (string \<times> json) list" where
  "parse_protected L protected =
     (if protected = [] then Inr []
      else (case decode_json L protected of
              Some (JObj hdr) \<Rightarrow> Inr hdr
            | other \<Rightarrow> Inl JWSInvalid))"

text \<open>
  \<open>compactVerify\<close>: exactly three segments, a valid protected header, a signature that
  verifies over \<open>header.payload\<close>, and the payload bytes. The result carries the
  \<open>b64\<close> flag with the payload.
\<close>

definition verify_segments ::
  "'k jose \<Rightarrow> 'k \<Rightarrow> string \<Rightarrow> string \<Rightarrow> string \<Rightarrow> jose_error + (bool \<times> string)" where
  "verify_segments L key protected payload signature =
     (case parse_protected L protected of
        Inl e \<Rightarrow> Inl e
      | Inr hdr \<Rightarrow>
          (case validateCrit hdr of
             Inl e \<Rightarrow> Inl e
           | Inr critical \<Rightarrow>
               (case b64_flag hdr critical of
                  Inl e \<Rightarrow> Inl e
                | Inr b64 \<Rightarrow>
                    (case header_alg hdr of
                       Inl e \<Rightarrow> Inl e
                     | Inr alg \<Rightarrow>
                         (case jose_verify L alg key signature (protected @ ''.'' @ payload) of
                            Inl e \<Rightarrow> Inl e
                          | Inr verified \<Rightarrow>
                              if \<not> verified then Inl JWSSignatureVerificationFailed
                              else if b64
                                then (case jose_base64url_decode L payload of
                                        None \<Rightarrow> Inl JWSInvalid
                                      | Some bytes \<Rightarrow> Inr (b64, bytes))
                                else Inr (b64, payload))))))"

definition compactVerify :: "'k jose \<Rightarrow> string \<Rightarrow> 'k \<Rightarrow> jose_error + (bool \<times> string)" where
  "compactVerify L jws key =
     (case split_dot jws of
        [protected, payload, signature] \<Rightarrow> verify_segments L key protected payload signature
      | other \<Rightarrow> Inl JWSInvalid)"

definition checkAudiencePresence :: "json option \<Rightarrow> string \<Rightarrow> bool" where
  "checkAudiencePresence audPayload expected =
     (case audPayload of
        Some (JStr s) \<Rightarrow> s = expected
      | Some (JArr xs) \<Rightarrow> JStr expected \<in> set xs
      | other \<Rightarrow> False)"

definition is_number :: "json option \<Rightarrow> bool" where
  "is_number v = (case v of Some (JNum i) \<Rightarrow> True | other \<Rightarrow> False)"

text \<open>
  Validation of the claim set with the options \<open>issuer\<close> and \<open>audience\<close>: a top-level
  object; \<open>iss\<close> and \<open>aud\<close> present; \<open>iss\<close> and \<open>aud\<close> as expected; \<open>iat\<close> a number if
  present; \<open>nbf\<close> not in the future; \<open>exp\<close> in the future.
\<close>

definition check_exp :: "(string \<rightharpoonup> json) \<Rightarrow> int \<Rightarrow> jose_error option" where
  "check_exp payload now =
     (case payload ''exp'' of
        None \<Rightarrow> None
      | Some (JNum e) \<Rightarrow> if e \<le> now then Some JWTExpired else None
      | Some other \<Rightarrow> Some JWTClaimValidationFailed)"

definition check_nbf :: "(string \<rightharpoonup> json) \<Rightarrow> int \<Rightarrow> jose_error option" where
  "check_nbf payload now =
     (case payload ''nbf'' of
        None \<Rightarrow> None
      | Some (JNum b) \<Rightarrow> if b > now then Some JWTClaimValidationFailed else None
      | Some other \<Rightarrow> Some JWTClaimValidationFailed)"

definition validateClaims ::
  "(string \<times> json) list \<Rightarrow> string \<Rightarrow> string \<Rightarrow> int \<Rightarrow> jose_error + (string \<times> json) list" where
  "validateClaims claims iss_expected aud_expected now =
     (let payload = map_of claims in
      if payload ''iss'' = None then Inl JWTClaimValidationFailed
      else if payload ''aud'' = None then Inl JWTClaimValidationFailed
      else if iss_expected \<noteq> [] \<and> payload ''iss'' \<noteq> Some (JStr iss_expected)
        then Inl JWTClaimValidationFailed
      else if aud_expected \<noteq> [] \<and> \<not> checkAudiencePresence (payload ''aud'') aud_expected
        then Inl JWTClaimValidationFailed
      else if payload ''iat'' \<noteq> None \<and> \<not> is_number (payload ''iat'')
        then Inl JWTClaimValidationFailed
      else (case check_nbf payload now of
              Some e \<Rightarrow> Inl e
            | None \<Rightarrow> (case check_exp payload now of Some e \<Rightarrow> Inl e | None \<Rightarrow> Inr claims)))"

definition jwtVerify ::
  "'k jose \<Rightarrow> string \<Rightarrow> 'k \<Rightarrow> string \<Rightarrow> string \<Rightarrow> int \<Rightarrow> jose_error + (string \<times> json) list" where
  "jwtVerify L jwt key iss_expected aud_expected now =
     (case compactVerify L jwt key of
        Inl e \<Rightarrow> Inl e
      | Inr (b64, bytes) \<Rightarrow>
          if \<not> b64 then Inl JWTInvalid
          else (case jose_JSON_parse L bytes of
                  Some (JObj claims) \<Rightarrow> validateClaims claims iss_expected aud_expected now
                | other \<Rightarrow> Inl JWTInvalid))"

subsection \<open>verifyToken\<close>

text \<open>\<open>payload.aud?.[0]\<close>: the first element of an array, the property \<open>0\<close> of an object.\<close>

definition first_of :: "json option \<Rightarrow> json option" where
  "first_of a =
     (case a of
        Some (JArr xs) \<Rightarrow> (case xs of [] \<Rightarrow> None | x # rest \<Rightarrow> Some x)
      | Some (JObj kvs) \<Rightarrow> map_of kvs ''0''
      | other \<Rightarrow> None)"

definition aud_of :: "json option \<Rightarrow> json" where
  "aud_of a = (case a of Some (JStr s) \<Rightarrow> JStr s | other \<Rightarrow> or_else (first_of a) (JStr []))"

definition toJWTPayload :: "(string \<times> json) list \<Rightarrow> JWTPayload" where
  "toJWTPayload claims =
     (let payload = map_of claims in
      \<lparr>p_sub = or_else (payload ''sub'') (JStr []),
       p_username = or_else (payload ''username'') (JStr []),
       p_email = or_else (payload ''email'') (JStr []),
       p_iat = payload ''iat'',
       p_exp = payload ''exp'',
       p_iss = payload ''iss'',
       p_aud = aud_of (payload ''aud'')\<rparr>)"

text \<open>The \<open>catch\<close> of \<open>verifyToken\<close>: two jose classes get a message of their own.\<close>

fun verifyToken_catch :: "exn \<Rightarrow> exn" where
  "verifyToken_catch (Jose JWTExpired) = Error ''Token has expired''"
| "verifyToken_catch (Jose JWTInvalid) = Error ''Invalid token''"
| "verifyToken_catch e = Error ''Token verification failed''"

definition verifyToken ::
  "'k jose \<Rightarrow> JWTService \<Rightarrow> 'k KeyService \<Rightarrow> int \<Rightarrow> string \<Rightarrow> exn + JWTPayload" where
  "verifyToken L svc ks now token =
     (case getPublicKey ks of
        Inl e \<Rightarrow> Inl (verifyToken_catch e)
      | Inr key \<Rightarrow>
          (case jwtVerify L token key (issuer svc) (audience svc) now of
             Inl e \<Rightarrow> Inl (verifyToken_catch (Jose e))
           | Inr claims \<Rightarrow> Inr (toJWTPayload claims)))"

section \<open>What issuing and verifying need from the library\<close>

text \<open>
  For a JSON value \<open>v\<close>, the codec is in order when the segment written for \<open>v\<close> is not
  empty, holds no dot, and decodes back to \<open>v\<close>. For a signing input, the key pair is in
  order when signing succeeds, the signature holds no dot, and it verifies under the
  public key.
\<close>

definition codec_ok :: "'k jose \<Rightarrow> json \<Rightarrow> bool" where
  "codec_ok L v =
     (jose_encode L v \<noteq> [] \<and> CHR ''.'' \<notin> set (jose_encode L v)
      \<and> decode_json L (jose_encode L v) = Some v)"

definition signature_ok :: "'k jose \<Rightarrow> 'k \<Rightarrow> 'k \<Rightarrow> string \<Rightarrow> bool" where
  "signature_ok L priv pub data =
     (case jose_sign L ''RS256'' priv data of
        Inl e \<Rightarrow> False
      | Inr s \<Rightarrow> CHR ''.'' \<notin> set s \<and> jose_verify L ''RS256'' pub s data = Inr True)"

section \<open>A stand-in for the library\<close>

text \<open>
  To run the model on concrete inputs the primitives need values. The stand-in below is
  deterministic and small: a key is a tagged number, a PEM text is a fixed prefix followed
  by as many \<open>k\<close> as the number says, a signature names the key and repeats the signing
  input with its dot replaced, and the codec serves the JSON values of a given table.
  Time spans are a whole number followed by one of the unit words of jose.
\<close>

datatype stub_key = Pub nat | Priv nat

fun index_of :: "json \<Rightarrow> json list \<Rightarrow> nat" where
  "index_of v [] = 0"
| "index_of v (x # xs) = (if v = x then 0 else Suc (index_of v xs))"

definition stub_encode :: "json list \<Rightarrow> json \<Rightarrow> string" where
  "stub_encode tbl v = ''seg'' @ replicate (index_of v tbl) CHR ''A''"

definition stub_parse :: "json list \<Rightarrow> string \<Rightarrow> json option" where
  "stub_parse tbl s =
     (if take 3 s = ''seg'' \<and> drop 3 s = replicate (length s - 3) CHR ''A''
         \<and> length s - 3 < length tbl
      then Some (tbl ! (length s - 3)) else None)"

definition stub_signature :: "nat \<Rightarrow> string \<Rightarrow> string" where
  "stub_signature i data =
     ''sig'' @ replicate i CHR ''k'' @ ''-'' @ map (\<lambda>c. if c = CHR ''.'' then CHR ''_'' else c) data"

definition stub_sign :: "string \<Rightarrow> stub_key \<Rightarrow> string \<Rightarrow> jose_error + string" where
  "stub_sign alg key data =
     (case key of
        Priv i \<Rightarrow> if alg = ''RS256'' then Inr (stub_signature i data) else Inl JOSENotSupported
      | Pub i \<Rightarrow> Inl TypeError)"

definition stub_verify :: "string \<Rightarrow> stub_key \<Rightarrow> string \<Rightarrow> string \<Rightarrow> jose_error + bool" where
  "stub_verify alg key signature data =
     (case key of
        Pub i \<Rightarrow> if alg = ''RS256'' then Inr (signature = stub_signature i data)
                 else Inl JOSENotSupported
      | Priv i \<Rightarrow> Inl TypeError)"

definition unit_seconds :: "string \<Rightarrow> int option" where
  "unit_seconds u =
     (if u \<in> set [''s'', ''sec'', ''secs'', ''second'', ''seconds''] then Some 1
      else if u \<in> set [''m'', ''min'', ''mins'', ''minute'', ''minutes''] then Some 60
      else if u \<in> set [''h'', ''hr'', ''hrs'', ''hour'', ''hours''] then Some 3600
      else if u \<in> set [''d'', ''day'', ''days''] then Some 86400
      else if u \<in> set [''w'', ''week'', ''weeks''] then Some 604800
      else if u \<in> set [''y'', ''yr'', ''yrs'', ''year'', ''years''] then Some 31557600
      else None)"

definition stub_secs :: "string \<Rightarrow> int option" where
  "stub_secs s =
     (let ds = takeWhile (is_digit 10) s;
          rest = dropWhile (is_digit 10) s;
          u = (if take 1 rest = '' '' then drop 1 rest else rest)
      in if ds = [] then None
         else (case unit_seconds (toLowerCase u) of
                 None \<Rightarrow> None
               | Some k \<Rightarrow> Some (int (digits_value 10 ds) * k)))"

definition stub_generateKeyPair ::
  "string \<Rightarrow> nat \<Rightarrow> bool \<Rightarrow> nat \<Rightarrow> jose_error + (stub_key \<times> stub_key)" where
  "stub_generateKeyPair alg modulusLength extractable seed =
     (if alg = ''RS256'' then Inr (Pub seed, Priv seed) else Inl JOSENotSupported)"

definition stub_exportPKCS8 :: "stub_key \<Rightarrow> jose_error + string" where
  "stub_exportPKCS8 key =
     (case key of Priv i \<Rightarrow> Inr (''PRIVATE KEY '' @ replicate i CHR ''k'') | Pub i \<Rightarrow> Inl TypeError)"

definition stub_exportSPKI :: "stub_key \<Rightarrow> jose_error + string" where
  "stub_exportSPKI key =
     (case key of Pub i \<Rightarrow> Inr (''PUBLIC KEY '' @ replicate i CHR ''k'') | Priv i \<Rightarrow> Inl TypeError)"

definition stub_importPKCS8 :: "string \<Rightarrow> string \<Rightarrow> jose_error + stub_key" where
  "stub_importPKCS8 pem alg =
     (if take 12 pem = ''PRIVATE KEY '' then Inr (Priv (length pem - 12)) else Inl TypeError)"

definition stub_importSPKI :: "string \<Rightarrow> string \<Rightarrow> jose_error + stub_key" where
  "stub_importSPKI pem alg =
     (if take 11 pem = ''PUBLIC KEY '' then Inr (Pub (length pem - 11)) else Inl TypeError)"

definition stub_exportJWK :: "stub_key \<Rightarrow> jose_error + jwk" where
  "stub_exportJWK key =
     (case key of
        Pub i \<Rightarrow>
          Inr \<lparr>jwk_kty = Some ''RSA'', jwk_n = Some (replicate (Suc i) CHR ''n''),
               jwk_e = Some ''AQAB'', jwk_d = None, jwk_p = None, jwk_q = None,
               jwk_dp = None, jwk_dq = None, jwk_qi = None\<rparr>
      | Priv i \<Rightarrow>
          Inr \<lparr>jwk_kty = Some ''RSA'', jwk_n = Some (replicate (Suc i) CHR ''n''),
               jwk_e = Some ''AQAB'', jwk_d = Some (replicate (Suc i) CHR ''d''),
               jwk_p = Some ''p'', jwk_q = Some ''q'', jwk_dp = Some ''dp'',
               jwk_dq = Some ''dq'', jwk_qi = Some ''qi''\<rparr>)"

definition stub_jose :: "json list \<Rightarrow> stub_key jose" where
  "stub_jose tbl =
     \<lparr>jose_encode = stub_encode tbl,
      jose_base64url_decode = Some,
      jose_JSON_parse = stub_parse tbl,
      jose_sign = stub_sign,
      jose_verify = stub_verify,
      jose_secs = stub_secs,
      jose_generateKeyPair = stub_generateKeyPair,
      jose_exportPKCS8 = stub_exportPKCS8,
      jose_exportSPKI = stub_exportSPKI,
      jose_importPKCS8 = stub_importPKCS8,
      jose_importSPKI = stub_importSPKI,
      jose_exportJWK = stub_exportJWK\<rparr>"

text \<open>Concrete services and inputs used below.\<close>

definition demo_svc :: "string \<Rightarrow> JWTService" where
  "demo_svc ttl = new_JWTService [''JWT_EXPIRATION'' \<mapsto> ttl]"

definition demo_ks :: "stub_key KeyService" where
  "demo_ks = (new_KeyService Map.empty)\<lparr>privateKey := Some (Priv 1), publicKey := Some (Pub 1)\<rparr>"

definition demo_claims :: TokenClaims where
  "demo_claims = \<lparr>c_sub = ''u1'', c_username = ''alice'', c_email = ''a@example.com''\<rparr>"

definition demo_header :: json where
  "demo_header = protectedHeader ''default-key-id''"

definition demo_table :: "string \<Rightarrow> int \<Rightarrow> json list" where
  "demo_table ttl span = [demo_header, claimsSet (demo_svc ttl) 1000 1000 span demo_claims]"


definition empty_fs :: fs where
  "empty_fs =
     \<lparr>files = Map.empty, dirs = [], access_faults = [], read_faults = [], write_faults = [],
      mkdir_fault = False\<rparr>"

definition fresh_ks :: "stub_key KeyService" where
  "fresh_ks = new_KeyService Map.empty"

definition keys_dir_fs :: "(string \<rightharpoonup> string) \<Rightarrow> fs" where
  "keys_dir_fs fls =
     \<lparr>files = fls, dirs = [''./keys''], access_faults = [], read_faults = [],
      write_faults = [], mkdir_fault = False\<rparr>"

definition both_fs :: fs where
  "both_fs = keys_dir_fs [''./keys/private-key.pem'' \<mapsto> ''PRIVATE KEY kk'',
                          ''./keys/public-key.pem'' \<mapsto> ''PUBLIC KEY kk'']"

definition corrupt_public_fs :: fs where
  "corrupt_public_fs = keys_dir_fs [''./keys/private-key.pem'' \<mapsto> ''PRIVATE KEY kk'',
                                    ''./keys/public-key.pem'' \<mapsto> ''garbage'']"

definition only_private_fs :: fs where
  "only_private_fs = keys_dir_fs [''./keys/private-key.pem'' \<mapsto> ''PRIVATE KEY kk'']"

definition unwritable_fs :: fs where
  "unwritable_fs = (keys_dir_fs Map.empty)
     \<lparr>write_faults := [''./keys/private-key.pem'', ''./keys/public-key.pem'']\<rparr>"

definition private_unwritable_fs :: fs where
  "private_unwritable_fs = (keys_dir_fs Map.empty)\<lparr>write_faults := [''./keys/private-key.pem'']\<rparr>"

definition public_unwritable_fs :: fs where
  "public_unwritable_fs = (keys_dir_fs Map.empty)\<lparr>write_faults := [''./keys/public-key.pem'']\<rparr>"

definition hidden_private_fs :: fs where
  "hidden_private_fs = both_fs\<lparr>access_faults := [''./keys/private-key.pem'']\<rparr>"

definition lone_unreadable_fs :: fs where
  "lone_unreadable_fs = only_private_fs\<lparr>read_faults := [''./keys/private-key.pem'']\<rparr>"

definition unreadable_fs :: fs where
  "unreadable_fs = both_fs\<lparr>read_faults := [''./keys/public-key.pem'']\<rparr>"

definition no_mkdir_fs :: fs where
  "no_mkdir_fs = empty_fs\<lparr>mkdir_fault := True\<rparr>"

definition demo_jwks :: JWKS where
  "demo_jwks =
     \<lparr>jwks_keys = [\<lparr>k_kty = ''RSA'', k_use = ''sig'', k_key_ops = [''verify''], k_alg = ''RS256'',
                    k_kid = ''default-key-id'', k_n = ''nn'', k_e = ''AQAB''\<rparr>]\<rparr>"

text \<open>
  Two claim sets that \<open>generateToken\<close> does not produce but the key can sign: one without
  \<open>username\<close> and \<open>email\<close> and with an array for \<open>aud\<close>, one with a number for
  \<open>username\<close>.
\<close>

definition sparse_claims :: "(string \<times> json) list" where
  "sparse_claims =
     [(''sub'', JStr ''u1''), (''iss'', JStr ''jwt-generator-app''),
      (''aud'', JArr [JStr ''jwt-generator-api'', JStr ''other''])]"

definition numeric_claims :: "(string \<times> json) list" where
  "numeric_claims =
     [(''sub'', JStr ''u1''), (''username'', JNum 42), (''email'', JStr ''a@example.com''),
      (''iss'', JStr ''jwt-generator-app''), (''aud'', JStr ''jwt-generator-api'')]"

definition claims_table :: "json list" where
  "claims_table = [demo_header, JObj sparse_claims, JObj numeric_claims]"

section \<open>Evaluation of the concrete inputs\<close>

lemma replicate_numeral: "replicate (numeral v) x = x # replicate (pred_numeral v) x"
  by (simp add: numeral_eq_Suc)

lemmas keyservice_defs =
  initializeKeys_def ensureKeysDirectory_def fileExists_def loadKeys_def generateKeyPair_def
  getPrivateKeyPath_def getPublicKeyPath_def path_join_def new_KeyService_def env_or_def str_or_def
  fs_access_def fs_mkdir_def fs_readFile_def fs_writeFile_def getPrivateKey_def getPublicKey_def

lemmas stub_defs =
  stub_jose_def stub_generateKeyPair_def stub_exportPKCS8_def stub_exportSPKI_def
  stub_importPKCS8_def stub_importSPKI_def stub_exportJWK_def stub_sign_def stub_verify_def
  stub_signature_def stub_encode_def stub_parse_def

lemmas fixture_defs =
  fresh_ks_def keys_dir_fs_def both_fs_def corrupt_public_fs_def only_private_fs_def
  unwritable_fs_def unreadable_fs_def empty_fs_def no_mkdir_fs_def private_unwritable_fs_def
  public_unwritable_fs_def hidden_private_fs_def lone_unreadable_fs_def

lemma run_fresh:
  "initializeKeys (stub_jose []) fresh_ks empty_fs 7 =
     (Inr (), fresh_ks\<lparr>privateKey := Some (Priv 7), publicKey := Some (Pub 7)\<rparr>,
      empty_fs\<lparr>dirs := [''./keys''],
        files := [''./keys/private-key.pem'' \<mapsto> ''PRIVATE KEY kkkkkkk'',
                  ''./keys/public-key.pem'' \<mapsto> ''PUBLIC KEY kkkkkkk'']\<rparr>)"
  by (simp add: keyservice_defs stub_defs fixture_defs Let_def replicate_numeral)

lemma run_corrupt:
  "initializeKeys (stub_jose []) fresh_ks corrupt_public_fs 7 =
     (Inl (Jose TypeError), fresh_ks\<lparr>privateKey := Some (Priv 2)\<rparr>, corrupt_public_fs)"
  by (simp add: keyservice_defs stub_defs fixture_defs Let_def replicate_numeral)

lemma run_only_private:
  "initializeKeys (stub_jose []) fresh_ks only_private_fs 7 =
     (Inr (), fresh_ks\<lparr>privateKey := Some (Priv 7), publicKey := Some (Pub 7)\<rparr>,
      only_private_fs\<lparr>files := [''./keys/private-key.pem'' \<mapsto> ''PRIVATE KEY kkkkkkk'',
                  ''./keys/public-key.pem'' \<mapsto> ''PUBLIC KEY kkkkkkk'']\<rparr>)"
  by (simp add: keyservice_defs stub_defs fixture_defs Let_def replicate_numeral)

text \<open>The initialised service of the examples is what a first start on an empty disk gives.\<close>

lemma demo_ks_reachable:
  "initializeKeys (stub_jose []) fresh_ks empty_fs 1 =
     (Inr (), demo_ks,
      empty_fs\<lparr>dirs := [''./keys''],
        files := [''./keys/private-key.pem'' \<mapsto> ''PRIVATE KEY k'',
                  ''./keys/public-key.pem'' \<mapsto> ''PUBLIC KEY k'']\<rparr>)"
  by (simp add: keyservice_defs stub_defs fixture_defs demo_ks_def Let_def)

lemma run_getJWKS: "getJWKS (stub_jose tbl) demo_ks n = (Inr demo_jwks, Suc n)"
  by (simp add: getJWKS_def demo_ks_def demo_jwks_def toJWKSKey_def str_or_def stub_defs
      new_KeyService_def replicate_numeral)

section \<open>Key access before and after initialisation\<close>

lemma initializeKeys_success_keys:
  assumes "initializeKeys L ks f seed = (Inr (), ks', f')"
  shows "\<exists>priv pub. privateKey ks' = Some priv \<and> publicKey ks' = Some pub"
  using assms
  unfolding initializeKeys_def loadKeys_def generateKeyPair_def Let_def
  by (auto split: prod.splits sum.splits if_splits)

text \<open>
  C8, as the code has it. \<open>getPrivateKey\<close> and \<open>getPublicKey\<close> test their own field for
  null and nothing else: while the field is unset, as it is on a service that was just
  constructed, the call fails with its \<open>not initialized\<close> error, and once the field is set
  the call returns the key; after \<open>initializeKeys\<close> has returned normally, both calls
  return a key.
\<close>

theorem getKey_unset_fails_and_initialized_returns:
  "(privateKey ks = None \<longrightarrow> getPrivateKey ks = Inl (Error ''Private key not initialized''))
   \<and> (publicKey ks = None \<longrightarrow> getPublicKey ks = Inl (Error ''Public key not initialized''))
   \<and> (privateKey ks = Some k \<longrightarrow> getPrivateKey ks = Inr k)
   \<and> (publicKey ks = Some k \<longrightarrow> getPublicKey ks = Inr k)
   \<and> getPrivateKey (new_KeyService env :: 'k KeyService) = Inl (Error ''Private key not initialized'')
   \<and> getPublicKey (new_KeyService env :: 'k KeyService) = Inl (Error ''Public key not initialized'')
   \<and> (initializeKeys L ks f seed = (Inr (), ks', f') \<longrightarrow>
        (\<exists>priv pub. getPrivateKey ks' = Inr priv \<and> getPublicKey ks' = Inr pub))"
proof -
  have "initializeKeys L ks f seed = (Inr (), ks', f') \<Longrightarrow>
        \<exists>priv pub. getPrivateKey ks' = Inr priv \<and> getPublicKey ks' = Inr pub"
    using initializeKeys_success_keys [of L ks f seed ks' f']
    by (auto simp: getPrivateKey_def getPublicKey_def)
  then show ?thesis
    by (auto simp: getPrivateKey_def getPublicKey_def new_KeyService_def)
qed

text \<open>
  The theorem at a fresh service and an empty disk: both calls fail before, the
  initialisation succeeds, and afterwards both calls return a key.
\<close>

theorem getKey_unset_fails_and_initialized_returns_witness:
  "getPrivateKey fresh_ks = Inl (Error ''Private key not initialized'')
   \<and> getPublicKey fresh_ks = Inl (Error ''Public key not initialized'')
   \<and> fst (initializeKeys (stub_jose []) fresh_ks empty_fs 7) = Inr ()
   \<and> (\<exists>priv pub.
        getPrivateKey (fst (snd (initializeKeys (stub_jose []) fresh_ks empty_fs 7))) = Inr priv
        \<and> getPublicKey (fst (snd (initializeKeys (stub_jose []) fresh_ks empty_fs 7))) = Inr pub)"
proof -
  let ?r = "initializeKeys (stub_jose []) fresh_ks empty_fs 7"
  have run: "?r = (Inr (), fst (snd ?r), snd (snd ?r))"
    by (simp add: run_fresh)
  have ok: "fst ?r = Inr ()"
    by (simp add: run_fresh)
  have unset: "privateKey fresh_ks = None" "publicKey fresh_ks = None"
    by (simp_all add: fresh_ks_def new_KeyService_def)
  from getKey_unset_fails_and_initialized_returns
          [where ks = fresh_ks and env = Map.empty and L = "stub_jose []" and f = empty_fs
             and seed = 7 and ks' = "fst (snd ?r)" and f' = "snd (snd ?r)"]
    run ok unset
  show ?thesis by blast
qed

text \<open>
  C8 as stated fails in the failed state. With a private-key file that parses and a
  public-key file that does not, \<open>loadKeys\<close> has assigned the private key when the import
  of the public key throws: \<open>initializeKeys\<close> fails, and \<open>getPrivateKey\<close> returns a key.
\<close>

theorem getPrivateKey_after_failed_init:
  "fst (initializeKeys (stub_jose []) fresh_ks corrupt_public_fs 7) = Inl (Jose TypeError)
   \<and> getPrivateKey (fst (snd (initializeKeys (stub_jose []) fresh_ks corrupt_public_fs 7)))
       = Inr (Priv 2)"
  by (simp add: run_corrupt getPrivateKey_def)

section \<open>Loading or generating the key pair\<close>

text \<open>
  C3, as the code has it. Once the keys directory is there, \<open>initializeKeys\<close> looks at
  both artifacts. If both exist it does what \<open>loadKeys\<close> does and leaves the disk alone;
  when the reads and the imports succeed, the keys are the imported ones. In every other
  case (neither artifact, or exactly one) it generates an RS256 pair of 2048 bits, and when
  the exports and the writes succeed both artifacts hold the new pair, whatever was there.
\<close>

theorem initializeKeys_loads_or_generates:
  "(ensureKeysDirectory ks f = (Inr (), f1)
      \<and> fileExists f1 (getPrivateKeyPath ks) \<and> fileExists f1 (getPublicKeyPath ks)
    \<longrightarrow> initializeKeys L ks f seed = (fst (loadKeys L ks f1), snd (loadKeys L ks f1), f1))
   \<and> (ensureKeysDirectory ks f = (Inr (), f1)
      \<and> fileExists f1 (getPrivateKeyPath ks) \<and> fileExists f1 (getPublicKeyPath ks)
      \<and> fs_readFile f1 (getPrivateKeyPath ks) = Inr privPem
      \<and> fs_readFile f1 (getPublicKeyPath ks) = Inr pubPem
      \<and> jose_importPKCS8 L privPem ''RS256'' = Inr priv
      \<and> jose_importSPKI L pubPem ''RS256'' = Inr pub
    \<longrightarrow> initializeKeys L ks f seed
          = (Inr (), ks\<lparr>privateKey := Some priv, publicKey := Some pub\<rparr>, f1))
   \<and> (ensureKeysDirectory ks f = (Inr (), f1)
      \<and> \<not> (fileExists f1 (getPrivateKeyPath ks) \<and> fileExists f1 (getPublicKeyPath ks))
      \<and> jose_generateKeyPair L ''RS256'' 2048 True seed = Inr (gpub, gpriv)
      \<and> jose_exportPKCS8 L gpriv = Inr gprivPem
      \<and> jose_exportSPKI L gpub = Inr gpubPem
      \<and> getPrivateKeyPath ks \<notin> set (write_faults f1)
      \<and> getPublicKeyPath ks \<notin> set (write_faults f1)
    \<longrightarrow> initializeKeys L ks f seed
          = (Inr (), ks\<lparr>privateKey := Some gpriv, publicKey := Some gpub\<rparr>,
             f1\<lparr>files := (files f1)(getPrivateKeyPath ks \<mapsto> gprivPem,
                                      getPublicKeyPath ks \<mapsto> gpubPem)\<rparr>))"
  unfolding initializeKeys_def loadKeys_def generateKeyPair_def fs_writeFile_def Let_def
  by (auto split: prod.splits sum.splits)

text \<open>
  The theorem on a disk with both artifacts (the stored pair is loaded) and on a disk with
  none (a pair is generated and both artifacts are written).
\<close>

theorem initializeKeys_loads_or_generates_witness:
  "initializeKeys (stub_jose []) fresh_ks both_fs 7
     = (Inr (), fresh_ks\<lparr>privateKey := Some (Priv 2), publicKey := Some (Pub 2)\<rparr>, both_fs)
   \<and> initializeKeys (stub_jose []) fresh_ks (keys_dir_fs Map.empty) 3
     = (Inr (), fresh_ks\<lparr>privateKey := Some (Priv 3), publicKey := Some (Pub 3)\<rparr>,
        (keys_dir_fs Map.empty)\<lparr>files :=
           [getPrivateKeyPath fresh_ks \<mapsto> ''PRIVATE KEY kkk'',
            getPublicKeyPath fresh_ks \<mapsto> ''PUBLIC KEY kkk'']\<rparr>)"
proof -
  let ?L = "stub_jose [] :: stub_key jose"
  have dir_both: "ensureKeysDirectory fresh_ks both_fs = (Inr (), both_fs)"
    by (simp add: keyservice_defs fixture_defs)
  have ex_both: "fileExists both_fs (getPrivateKeyPath fresh_ks)"
    "fileExists both_fs (getPublicKeyPath fresh_ks)"
    by (simp_all add: keyservice_defs fixture_defs)
  have rd_both: "fs_readFile both_fs (getPrivateKeyPath fresh_ks) = Inr ''PRIVATE KEY kk''"
    "fs_readFile both_fs (getPublicKeyPath fresh_ks) = Inr ''PUBLIC KEY kk''"
    by (simp_all add: keyservice_defs fixture_defs)
  have imp_both: "jose_importPKCS8 ?L ''PRIVATE KEY kk'' ''RS256'' = Inr (Priv 2)"
    "jose_importSPKI ?L ''PUBLIC KEY kk'' ''RS256'' = Inr (Pub 2)"
    by (simp_all add: stub_defs)
  have dir_none:
    "ensureKeysDirectory fresh_ks (keys_dir_fs Map.empty) = (Inr (), keys_dir_fs Map.empty)"
    by (simp add: keyservice_defs fixture_defs)
  have ex_none: "\<not> (fileExists (keys_dir_fs Map.empty) (getPrivateKeyPath fresh_ks)
                   \<and> fileExists (keys_dir_fs Map.empty) (getPublicKeyPath fresh_ks))"
    by (simp add: keyservice_defs fixture_defs)
  have gen: "jose_generateKeyPair ?L ''RS256'' 2048 True 3 = Inr (Pub 3, Priv 3)"
    "jose_exportPKCS8 ?L (Priv 3) = Inr ''PRIVATE KEY kkk''"
    "jose_exportSPKI ?L (Pub 3) = Inr ''PUBLIC KEY kkk''"
    by (simp_all add: stub_defs replicate_numeral)
  have wr: "getPrivateKeyPath fresh_ks \<notin> set (write_faults (keys_dir_fs Map.empty))"
    "getPublicKeyPath fresh_ks \<notin> set (write_faults (keys_dir_fs Map.empty))"
    by (simp_all add: fixture_defs)
  have load: "initializeKeys ?L fresh_ks both_fs 7
     = (Inr (), fresh_ks\<lparr>privateKey := Some (Priv 2), publicKey := Some (Pub 2)\<rparr>, both_fs)"
    using initializeKeys_loads_or_generates
            [of fresh_ks both_fs both_fs ?L 7 "''PRIVATE KEY kk''" "''PUBLIC KEY kk''"
                "Priv 2" "Pub 2"]
          dir_both ex_both rd_both imp_both
    by blast
  have generate: "initializeKeys ?L fresh_ks (keys_dir_fs Map.empty) 3
     = (Inr (), fresh_ks\<lparr>privateKey := Some (Priv 3), publicKey := Some (Pub 3)\<rparr>,
        (keys_dir_fs Map.empty)\<lparr>files :=
           (files (keys_dir_fs Map.empty))(getPrivateKeyPath fresh_ks \<mapsto> ''PRIVATE KEY kkk'',
            getPublicKeyPath fresh_ks \<mapsto> ''PUBLIC KEY kkk'')\<rparr>)"
    using initializeKeys_loads_or_generates
            [of fresh_ks "keys_dir_fs Map.empty" "keys_dir_fs Map.empty" ?L 3 _ _ _ _
                "Pub 3" "Priv 3" "''PRIVATE KEY kkk''" "''PUBLIC KEY kkk''"]
          dir_none ex_none gen wr
    by blast
  have "files (keys_dir_fs Map.empty) = Map.empty"
    by (simp add: fixture_defs)
  with load generate show ?thesis by simp
qed

text \<open>
  C3 as stated fails when exactly one artifact exists. With only the private-key file on
  disk, \<open>initializeKeys\<close> returns normally with a fresh pair and the file that was there is
  overwritten.
\<close>

theorem initializeKeys_regenerates_over_partial_state:
  "fileExists only_private_fs (getPrivateKeyPath fresh_ks)
   \<and> \<not> fileExists only_private_fs (getPublicKeyPath fresh_ks)
   \<and> fst (initializeKeys (stub_jose []) fresh_ks only_private_fs 7) = Inr ()
   \<and> privateKey (fst (snd (initializeKeys (stub_jose []) fresh_ks only_private_fs 7)))
       = Some (Priv 7)
   \<and> files only_private_fs (getPrivateKeyPath fresh_ks) = Some ''PRIVATE KEY kk''
   \<and> files (snd (snd (initializeKeys (stub_jose []) fresh_ks only_private_fs 7)))
        (getPrivateKeyPath fresh_ks) = Some ''PRIVATE KEY kkkkkkk''"
  by (simp add: run_only_private) (simp add: keyservice_defs fixture_defs)

section \<open>Storage faults during initialisation\<close>

text \<open>
  C9, as the code has it. Two storage faults make \<open>initializeKeys\<close> fail: a keys
  directory that cannot be created, and a read fault on either artifact when both artifacts
  are found. The other storage faults are swallowed. A keys directory that \<open>access\<close>
  cannot reach is created again, without error unless creating fails. An artifact that
  \<open>access\<close> cannot reach counts as absent. Whenever not both artifacts are found (a lone artifact included,
  readable or not) a pair is generated and the outcome is success with that pair in memory,
  whatever exporting and writing do: the disk is as it was when an export fails or the
  private-key file cannot be written, and only the private-key file is written when just
  the public-key file cannot be written.
\<close>

theorem initializeKeys_storage_faults:
  "(\<not> fs_access f (keysDir ks) \<and> mkdir_fault f
    \<longrightarrow> fst (initializeKeys L ks f seed) = Inl FsError)
   \<and> (ensureKeysDirectory ks f = (Inr (), f1)
      \<and> fileExists f1 (getPrivateKeyPath ks) \<and> fileExists f1 (getPublicKeyPath ks)
      \<and> (getPrivateKeyPath ks \<in> set (read_faults f1) \<or> getPublicKeyPath ks \<in> set (read_faults f1))
    \<longrightarrow> fst (initializeKeys L ks f seed) = Inl FsError)
   \<and> (\<not> mkdir_fault f \<longrightarrow> fst (ensureKeysDirectory ks f) = Inr ())
   \<and> (p \<in> set (access_faults f1) \<longrightarrow> \<not> fileExists f1 p)
   \<and> (ensureKeysDirectory ks f = (Inr (), f1)
      \<and> \<not> (fileExists f1 (getPrivateKeyPath ks) \<and> fileExists f1 (getPublicKeyPath ks))
      \<and> jose_generateKeyPair L ''RS256'' 2048 True seed = Inr (gpub, gpriv)
    \<longrightarrow> fst (initializeKeys L ks f seed) = Inr ()
        \<and> fst (snd (initializeKeys L ks f seed))
            = ks\<lparr>privateKey := Some gpriv, publicKey := Some gpub\<rparr>)
   \<and> (ensureKeysDirectory ks f = (Inr (), f1)
      \<and> \<not> (fileExists f1 (getPrivateKeyPath ks) \<and> fileExists f1 (getPublicKeyPath ks))
      \<and> jose_generateKeyPair L ''RS256'' 2048 True seed = Inr (gpub, gpriv)
      \<and> (jose_exportPKCS8 L gpriv = Inl e1 \<or> jose_exportSPKI L gpub = Inl e2
           \<or> getPrivateKeyPath ks \<in> set (write_faults f1))
    \<longrightarrow> snd (snd (initializeKeys L ks f seed)) = f1)
   \<and> (ensureKeysDirectory ks f = (Inr (), f1)
      \<and> \<not> (fileExists f1 (getPrivateKeyPath ks) \<and> fileExists f1 (getPublicKeyPath ks))
      \<and> jose_generateKeyPair L ''RS256'' 2048 True seed = Inr (gpub, gpriv)
      \<and> jose_exportPKCS8 L gpriv = Inr gprivPem \<and> jose_exportSPKI L gpub = Inr gpubPem
      \<and> getPrivateKeyPath ks \<notin> set (write_faults f1)
      \<and> getPublicKeyPath ks \<in> set (write_faults f1)
    \<longrightarrow> snd (snd (initializeKeys L ks f seed))
          = f1\<lparr>files := (files f1)(getPrivateKeyPath ks \<mapsto> gprivPem)\<rparr>)"
  unfolding initializeKeys_def ensureKeysDirectory_def loadKeys_def generateKeyPair_def
    fs_writeFile_def fs_readFile_def fs_mkdir_def fileExists_def fs_access_def Let_def
  by (auto split: prod.splits sum.splits option.splits)

lemma stub_generates: "jose_generateKeyPair (stub_jose tbl) ''RS256'' 2048 True n = Inr (Pub n, Priv n)"
  by (simp add: stub_defs)

text \<open>
  The theorem on seven disks: the directory cannot be created; the public-key file cannot
  be read; the directory is not there and can be created; the private-key file is there but \<open>access\<close> cannot reach it; the private-key file
  is the only artifact and cannot be read; the private-key file cannot be written; the
  public-key file cannot be written.
\<close>

theorem initializeKeys_storage_faults_witness:
  "fst (initializeKeys (stub_jose []) fresh_ks no_mkdir_fs 5) = Inl FsError
   \<and> fst (initializeKeys (stub_jose []) fresh_ks unreadable_fs 5) = Inl FsError
   \<and> \<not> fs_access empty_fs (keysDir fresh_ks)
   \<and> fst (ensureKeysDirectory fresh_ks empty_fs) = Inr ()
   \<and> \<not> fileExists hidden_private_fs (getPrivateKeyPath fresh_ks)
   \<and> fst (initializeKeys (stub_jose []) fresh_ks hidden_private_fs 5) = Inr ()
   \<and> fst (snd (initializeKeys (stub_jose []) fresh_ks hidden_private_fs 5))
       = fresh_ks\<lparr>privateKey := Some (Priv 5), publicKey := Some (Pub 5)\<rparr>
   \<and> fst (initializeKeys (stub_jose []) fresh_ks lone_unreadable_fs 5) = Inr ()
   \<and> fst (snd (initializeKeys (stub_jose []) fresh_ks lone_unreadable_fs 5))
       = fresh_ks\<lparr>privateKey := Some (Priv 5), publicKey := Some (Pub 5)\<rparr>
   \<and> fst (initializeKeys (stub_jose []) fresh_ks private_unwritable_fs 5) = Inr ()
   \<and> fst (snd (initializeKeys (stub_jose []) fresh_ks private_unwritable_fs 5))
       = fresh_ks\<lparr>privateKey := Some (Priv 5), publicKey := Some (Pub 5)\<rparr>
   \<and> snd (snd (initializeKeys (stub_jose []) fresh_ks private_unwritable_fs 5))
       = private_unwritable_fs
   \<and> fst (initializeKeys (stub_jose []) fresh_ks public_unwritable_fs 5) = Inr ()
   \<and> snd (snd (initializeKeys (stub_jose []) fresh_ks public_unwritable_fs 5))
       = public_unwritable_fs\<lparr>files :=
           (files public_unwritable_fs)(getPrivateKeyPath fresh_ks \<mapsto> ''PRIVATE KEY kkkkk'')\<rparr>"
proof -
  let ?L = "stub_jose [] :: stub_key jose"
  note gen = stub_generates [of "[]" 5]
  have mk: "\<not> fs_access no_mkdir_fs (keysDir fresh_ks)" "mkdir_fault no_mkdir_fs"
    by (simp_all add: keyservice_defs fixture_defs)
  have dir_rd: "ensureKeysDirectory fresh_ks unreadable_fs = (Inr (), unreadable_fs)"
    and ex_rd: "fileExists unreadable_fs (getPrivateKeyPath fresh_ks)"
      "fileExists unreadable_fs (getPublicKeyPath fresh_ks)"
    and flt_rd: "getPublicKeyPath fresh_ks \<in> set (read_faults unreadable_fs)"
    by (simp_all add: keyservice_defs fixture_defs)
  have dir_hid: "ensureKeysDirectory fresh_ks hidden_private_fs = (Inr (), hidden_private_fs)"
    and flt_hid: "getPrivateKeyPath fresh_ks \<in> set (access_faults hidden_private_fs)"
    by (simp_all add: keyservice_defs fixture_defs)
  have dir_lone: "ensureKeysDirectory fresh_ks lone_unreadable_fs = (Inr (), lone_unreadable_fs)"
    and ex_lone: "\<not> (fileExists lone_unreadable_fs (getPrivateKeyPath fresh_ks)
                   \<and> fileExists lone_unreadable_fs (getPublicKeyPath fresh_ks))"
    by (simp_all add: keyservice_defs fixture_defs)
  have dir_wr:
    "ensureKeysDirectory fresh_ks private_unwritable_fs = (Inr (), private_unwritable_fs)"
    and ex_wr: "\<not> (fileExists private_unwritable_fs (getPrivateKeyPath fresh_ks)
                   \<and> fileExists private_unwritable_fs (getPublicKeyPath fresh_ks))"
    and flt_wr: "getPrivateKeyPath fresh_ks \<in> set (write_faults private_unwritable_fs)"
    by (simp_all add: keyservice_defs fixture_defs)
  have dir_pw:
    "ensureKeysDirectory fresh_ks public_unwritable_fs = (Inr (), public_unwritable_fs)"
    and ex_pw: "\<not> (fileExists public_unwritable_fs (getPrivateKeyPath fresh_ks)
                   \<and> fileExists public_unwritable_fs (getPublicKeyPath fresh_ks))"
    and flt_pw: "getPrivateKeyPath fresh_ks \<notin> set (write_faults public_unwritable_fs)"
      "getPublicKeyPath fresh_ks \<in> set (write_faults public_unwritable_fs)"
    by (simp_all add: keyservice_defs fixture_defs)
  have pems: "jose_exportPKCS8 ?L (Priv 5) = Inr ''PRIVATE KEY kkkkk''"
    "jose_exportSPKI ?L (Pub 5) = Inr ''PUBLIC KEY kkkkk''"
    by (simp_all add: stub_defs replicate_numeral)
  have a: "fst (initializeKeys ?L fresh_ks no_mkdir_fs 5) = Inl FsError"
    using initializeKeys_storage_faults [where f = no_mkdir_fs and ks = fresh_ks and L = ?L
        and seed = 5] mk by blast
  have b: "fst (initializeKeys ?L fresh_ks unreadable_fs 5) = Inl FsError"
    using initializeKeys_storage_faults [where f = unreadable_fs and ks = fresh_ks and L = ?L
        and seed = 5 and ?f1.0 = unreadable_fs]
      dir_rd ex_rd flt_rd by blast
  have nodir: "\<not> fs_access empty_fs (keysDir fresh_ks)" "\<not> mkdir_fault empty_fs"
    by (simp_all add: keyservice_defs fixture_defs)
  have mkd: "fst (ensureKeysDirectory fresh_ks empty_fs) = Inr ()"
    using initializeKeys_storage_faults [where f = empty_fs and ks = fresh_ks and L = ?L]
      nodir by blast
  have c: "\<not> fileExists hidden_private_fs (getPrivateKeyPath fresh_ks)"
    using initializeKeys_storage_faults [where ?f1.0 = hidden_private_fs
        and p = "getPrivateKeyPath fresh_ks" and ks = fresh_ks and L = ?L]
      flt_hid by blast
  then have ex_hid: "\<not> (fileExists hidden_private_fs (getPrivateKeyPath fresh_ks)
                   \<and> fileExists hidden_private_fs (getPublicKeyPath fresh_ks))"
    by simp
  have d: "fst (initializeKeys ?L fresh_ks hidden_private_fs 5) = Inr ()
      \<and> fst (snd (initializeKeys ?L fresh_ks hidden_private_fs 5))
            = fresh_ks\<lparr>privateKey := Some (Priv 5), publicKey := Some (Pub 5)\<rparr>"
    using initializeKeys_storage_faults [where f = hidden_private_fs and ks = fresh_ks
        and L = ?L and seed = 5 and ?f1.0 = hidden_private_fs and gpub = "Pub 5"
        and gpriv = "Priv 5"]
      dir_hid ex_hid gen by blast
  have e: "fst (initializeKeys ?L fresh_ks lone_unreadable_fs 5) = Inr ()
      \<and> fst (snd (initializeKeys ?L fresh_ks lone_unreadable_fs 5))
            = fresh_ks\<lparr>privateKey := Some (Priv 5), publicKey := Some (Pub 5)\<rparr>"
    using initializeKeys_storage_faults [where f = lone_unreadable_fs and ks = fresh_ks
        and L = ?L and seed = 5 and ?f1.0 = lone_unreadable_fs and gpub = "Pub 5"
        and gpriv = "Priv 5"]
      dir_lone ex_lone gen by blast
  have g: "fst (initializeKeys ?L fresh_ks private_unwritable_fs 5) = Inr ()
      \<and> fst (snd (initializeKeys ?L fresh_ks private_unwritable_fs 5))
            = fresh_ks\<lparr>privateKey := Some (Priv 5), publicKey := Some (Pub 5)\<rparr>
      \<and> snd (snd (initializeKeys ?L fresh_ks private_unwritable_fs 5)) = private_unwritable_fs"
    using initializeKeys_storage_faults [where f = private_unwritable_fs and ks = fresh_ks
        and L = ?L and seed = 5 and ?f1.0 = private_unwritable_fs and gpub = "Pub 5"
        and gpriv = "Priv 5"]
      dir_wr ex_wr flt_wr gen by blast
  have h: "fst (initializeKeys ?L fresh_ks public_unwritable_fs 5) = Inr ()
      \<and> snd (snd (initializeKeys ?L fresh_ks public_unwritable_fs 5))
          = public_unwritable_fs\<lparr>files :=
              (files public_unwritable_fs)(getPrivateKeyPath fresh_ks \<mapsto> ''PRIVATE KEY kkkkk'')\<rparr>"
    using initializeKeys_storage_faults [where f = public_unwritable_fs and ks = fresh_ks
        and L = ?L and seed = 5 and ?f1.0 = public_unwritable_fs and gpub = "Pub 5"
        and gpriv = "Priv 5" and gprivPem = "''PRIVATE KEY kkkkk''"
        and gpubPem = "''PUBLIC KEY kkkkk''"]
      dir_pw ex_pw flt_pw gen pems by blast
  from a b nodir(1) mkd c d e g h show ?thesis by blast
qed

text \<open>
  C9 as stated fails on a disk that refuses both writes: \<open>initializeKeys\<close> returns normally,
  the service holds the generated pair, and neither artifact exists afterwards.
\<close>

theorem initializeKeys_swallows_write_fault:
  "getPrivateKeyPath fresh_ks \<in> set (write_faults unwritable_fs)
   \<and> getPublicKeyPath fresh_ks \<in> set (write_faults unwritable_fs)
   \<and> initializeKeys (stub_jose []) fresh_ks unwritable_fs 7
       = (Inr (), fresh_ks\<lparr>privateKey := Some (Priv 7), publicKey := Some (Pub 7)\<rparr>,
          unwritable_fs)
   \<and> files unwritable_fs (getPrivateKeyPath fresh_ks) = None
   \<and> files unwritable_fs (getPublicKeyPath fresh_ks) = None"
  by (simp add: keyservice_defs stub_defs fixture_defs Let_def)

section \<open>The JWKS document\<close>

text \<open>
  C7, as the code has it. The outcome of \<open>getJWKS\<close> does not depend on how many calls
  came before, so two calls on one service return the same document, which is built from
  the exported public key and the key id. Every call on an initialised service exports the
  key again: nothing is kept between calls.
\<close>

theorem getJWKS_deterministic_not_cached:
  "fst (getJWKS L ks m) = fst (getJWKS L ks n)
   \<and> (getJWKS L ks n = (r1, n1) \<and> getJWKS L ks n1 = (r2, n2) \<longrightarrow> r1 = r2)
   \<and> (publicKey ks = Some k \<longrightarrow> snd (getJWKS L ks n) = Suc n)
   \<and> (publicKey ks = Some k \<and> jose_exportJWK L k = Inr j
       \<longrightarrow> fst (getJWKS L ks n) = Inr \<lparr>jwks_keys = [toJWKSKey (keyId ks) j]\<rparr>)"
  unfolding getJWKS_def
  by (auto split: option.splits sum.splits)

text \<open>The theorem on an initialised service: the same document twice, one export per call.\<close>

theorem getJWKS_deterministic_not_cached_witness:
  "fst (getJWKS (stub_jose []) demo_ks 0) = Inr demo_jwks
   \<and> fst (getJWKS (stub_jose []) demo_ks 1) = Inr demo_jwks
   \<and> snd (getJWKS (stub_jose []) demo_ks 0) = 1"
proof -
  let ?L = "stub_jose [] :: stub_key jose"
  have k: "publicKey demo_ks = Some (Pub 1)"
    by (simp add: demo_ks_def)
  have j: "jose_exportJWK ?L (Pub 1) = Inr \<lparr>jwk_kty = Some ''RSA'', jwk_n = Some ''nn'',
               jwk_e = Some ''AQAB'', jwk_d = None, jwk_p = None, jwk_q = None,
               jwk_dp = None, jwk_dq = None, jwk_qi = None\<rparr>"
    by (simp add: stub_defs)
  have d: "\<lparr>jwks_keys = [toJWKSKey (keyId demo_ks) \<lparr>jwk_kty = Some ''RSA'', jwk_n = Some ''nn'',
               jwk_e = Some ''AQAB'', jwk_d = None, jwk_p = None, jwk_q = None,
               jwk_dp = None, jwk_dq = None, jwk_qi = None\<rparr>]\<rparr> = demo_jwks"
    by (simp add: demo_jwks_def toJWKSKey_def str_or_def demo_ks_def new_KeyService_def)
  from getJWKS_deterministic_not_cached [of ?L demo_ks 1 0 _ _ _ _ "Pub 1"] k j d
  show ?thesis
    by (metis One_nat_def)
qed

text \<open>
  C7 as stated fails on the cache: after two calls the public key has been exported
  twice, not at most once.
\<close>

theorem getJWKS_exports_on_every_call:
  "snd (getJWKS (stub_jose []) demo_ks (snd (getJWKS (stub_jose []) demo_ks 0))) = 2
   \<and> \<not> snd (getJWKS (stub_jose []) demo_ks (snd (getJWKS (stub_jose []) demo_ks 0))) \<le> 1"
  by (simp add: run_getJWKS)

section \<open>Splitting a compact token\<close>

lemma split_dot_nonempty: "split_dot s \<noteq> []"
  by (induction s) (auto split: list.splits)

lemma length_split_dot: "length (split_dot s) = Suc (count_dots s)"
  unfolding count_dots_def
  by (induction s) (auto split: list.splits simp: split_dot_nonempty)

lemma split_dot_nodot: "CHR ''.'' \<notin> set a \<Longrightarrow> split_dot a = [a]"
  by (induction a) auto

lemma split_dot_append:
  "CHR ''.'' \<notin> set a \<Longrightarrow> split_dot (a @ CHR ''.'' # rest) = a # split_dot rest"
  by (induction a) auto

lemma split_dot_three:
  assumes "CHR ''.'' \<notin> set a" "CHR ''.'' \<notin> set b" "CHR ''.'' \<notin> set c"
  shows "split_dot (a @ ''.'' @ b @ ''.'' @ c) = [a, b, c]"
  using assms by (simp add: split_dot_append split_dot_nodot)

lemma compactVerify_not_three:
  assumes "length (split_dot jws) \<noteq> 3"
  shows "compactVerify L jws key = Inl JWSInvalid"
proof -
  obtain xs where xs: "split_dot jws = xs" by simp
  with assms have "length xs \<noteq> 3" by simp
  then have "(case xs of [protected, payload, signature] \<Rightarrow>
                 verify_segments L key protected payload signature
              | other \<Rightarrow> Inl JWSInvalid) = Inl JWSInvalid"
    by (auto split: list.splits)
  with xs show ?thesis by (simp add: compactVerify_def)
qed

section \<open>Issued tokens\<close>

lemma generateToken_issued:
  assumes "privateKey ks = Some priv"
    and "jose_secs L (expirationTime svc) = Some span"
    and "jose_sign L ''RS256'' priv
           (jose_encode L (protectedHeader (keyId ks)) @ ''.''
              @ jose_encode L (claimsSet svc t_iat t_exp span c)) = Inr s"
  shows "generateToken L svc ks t_iat t_exp c =
           Inr \<lparr>access_token = jose_encode L (protectedHeader (keyId ks)) @ ''.''
                   @ jose_encode L (claimsSet svc t_iat t_exp span c) @ ''.'' @ s,
                 token_type = ''Bearer'',
                 expires_in = calculateExpirationSeconds (expirationTime svc)\<rparr>"
  using assms
  by (simp add: generateToken_def getPrivateKey_def getKeyId_def compactSign_def Let_def)

lemma validateClaims_issued:
  "validateClaims (claimsFields svc t_iat t_exp span c) (issuer svc) (audience svc) now'
     = (if t_exp + span \<le> now' then Inl JWTExpired
        else Inr (claimsFields svc t_iat t_exp span c))"
  by (simp add: claimsFields_def validateClaims_def checkAudiencePresence_def is_number_def
      check_nbf_def check_exp_def Let_def)


text \<open>
  What jose makes of a token of this service at time \<open>now'\<close>: expired from \<open>exp\<close> on,
  and the claim set before.
\<close>

lemma jwtVerify_issued:
  assumes hdr: "codec_ok L (protectedHeader kid)"
    and pl: "codec_ok L (claimsSet svc t_iat t_exp span c)"
    and sg: "jose_sign L ''RS256'' priv
               (jose_encode L (protectedHeader kid) @ ''.'' @ jose_encode L (claimsSet svc t_iat t_exp span c))
             = Inr s"
    and nodot: "CHR ''.'' \<notin> set s"
    and vf: "jose_verify L ''RS256'' pub s
               (jose_encode L (protectedHeader kid) @ ''.'' @ jose_encode L (claimsSet svc t_iat t_exp span c))
             = Inr True"
  shows "jwtVerify L
           (jose_encode L (protectedHeader kid) @ ''.'' @ jose_encode L (claimsSet svc t_iat t_exp span c)
              @ ''.'' @ s)
           pub (issuer svc) (audience svc) now'
         = (if t_exp + span \<le> now' then Inl JWTExpired
            else Inr (claimsFields svc t_iat t_exp span c))"
proof -
  let ?h = "jose_encode L (protectedHeader kid)"
  let ?p = "jose_encode L (claimsSet svc t_iat t_exp span c)"
  have split: "split_dot (?h @ ''.'' @ ?p @ ''.'' @ s) = [?h, ?p, s]"
    using hdr pl nodot by (intro split_dot_three) (simp_all add: codec_ok_def)
  have prot: "parse_protected L ?h
      = Inr [(''alg'', JStr ''RS256''), (''typ'', JStr ''JWT''), (''kid'', JStr kid)]"
    using hdr by (simp add: parse_protected_def codec_ok_def protectedHeader_def)
  obtain bytes where bytes: "jose_base64url_decode L ?p = Some bytes"
    and parse: "jose_JSON_parse L bytes = Some (claimsSet svc t_iat t_exp span c)"
    using pl by (auto simp: codec_ok_def decode_json_def split: option.splits)
  have segs: "verify_segments L pub ?h ?p s = Inr (True, bytes)"
    using prot vf bytes
    by (simp add: verify_segments_def validateCrit_def b64_flag_def header_alg_def)
  have "jwtVerify L (?h @ ''.'' @ ?p @ ''.'' @ s) pub (issuer svc) (audience svc) now'
        = validateClaims (claimsFields svc t_iat t_exp span c) (issuer svc) (audience svc) now'"
    using split segs parse
    by (simp add: jwtVerify_def compactVerify_def claimsSet_def)
  then show ?thesis
    by (simp only: validateClaims_issued)
qed

section \<open>Evaluation of the concrete tokens\<close>

lemmas demo_defs =
  demo_svc_def demo_ks_def demo_claims_def demo_header_def demo_table_def
  new_JWTService_def new_KeyService_def env_or_def str_or_def

lemmas verify_defs =
  verifyToken_def getPublicKey_def jwtVerify_def compactVerify_def verify_segments_def
  parse_protected_def decode_json_def validateCrit_def b64_flag_def header_alg_def
  validateClaims_def checkAudiencePresence_def is_number_def check_nbf_def check_exp_def
  toJWTPayload_def or_else_def aud_of_def first_of_def Let_def

lemma demo_svc_fields:
  "issuer (demo_svc ttl) = ''jwt-generator-app''"
  "audience (demo_svc ttl) = ''jwt-generator-api''"
  "ttl \<noteq> [] \<Longrightarrow> expirationTime (demo_svc ttl) = ttl"
  by (simp_all add: demo_defs)

lemma demo_ks_fields:
  "privateKey demo_ks = Some (Priv 1)" "publicKey demo_ks = Some (Pub 1)"
  "keyId demo_ks = ''default-key-id''"
  by (simp_all add: demo_defs)

lemma demo_secs_jose: "jose_secs (stub_jose tbl) = stub_secs"
  by (simp add: stub_jose_def)

lemma demo_secs:
  "stub_secs ''1h'' = Some 3600" "stub_secs ''1s'' = Some 1" "stub_secs ''1w'' = Some 604800"
  "stub_secs ''1y'' = Some 31557600"
  by (simp_all add: stub_secs_def is_digit_def digit_val_def digits_value_def unit_seconds_def
      toLowerCase_def Let_def)

lemma calc_demo:
  "calculateExpirationSeconds ''1h'' = Number 3600"
  "calculateExpirationSeconds ''1s'' = Number 1"
  "calculateExpirationSeconds ''1w'' = Number 3600"
  "calculateExpirationSeconds ''1y'' = Number 3600"
  by (simp_all add: calculateExpirationSeconds_def parseInt_def is_ws_def is_digit_def
      digit_val_def digits_value_def toLowerCase_def slice_last_def times_def Let_def)

lemma demo_header_codec:
  "codec_ok (stub_jose (demo_table ttl span)) (protectedHeader (keyId demo_ks))"
  by (simp add: codec_ok_def decode_json_def stub_defs demo_defs)

lemma demo_claims_neq_header: "claimsSet svc t_iat t_exp span c \<noteq> demo_header"
  by (simp add: claimsSet_def claimsFields_def demo_header_def protectedHeader_def)

lemma demo_claims_codec:
  "codec_ok (stub_jose (demo_table ttl span)) (claimsSet (demo_svc ttl) 1000 1000 span demo_claims)"
  by (simp add: codec_ok_def decode_json_def stub_defs demo_table_def demo_claims_neq_header)

lemma demo_signature: "signature_ok (stub_jose tbl) (Priv 1) (Pub 1) data"
  by (auto simp: signature_ok_def stub_defs)

lemma run_generate:
  "ttl \<noteq> [] \<Longrightarrow> stub_secs ttl = Some span \<Longrightarrow>
   generateToken (stub_jose (demo_table ttl span)) (demo_svc ttl) demo_ks 1000 1000 demo_claims
     = Inr \<lparr>access_token = ''seg.segA.sigk-seg_segA'', token_type = ''Bearer'',
            expires_in = calculateExpirationSeconds ttl\<rparr>"
  by (simp add: generateToken_def getPrivateKey_def getKeyId_def compactSign_def Let_def
      demo_ks_fields demo_svc_fields demo_secs_jose)
     (simp add: stub_defs demo_table_def demo_header_def demo_svc_fields
        demo_claims_neq_header [unfolded demo_header_def])

lemma run_verify_sparse:
  "verifyToken (stub_jose claims_table) (demo_svc ''1h'') demo_ks 1000 ''seg.segA.sigk-seg_segA''
     = Inr \<lparr>p_sub = JStr ''u1'', p_username = JStr [], p_email = JStr [],
            p_iat = None, p_exp = None, p_iss = Some (JStr ''jwt-generator-app''),
            p_aud = JStr ''jwt-generator-api''\<rparr>"
  by (simp add: verify_defs stub_defs demo_ks_fields demo_svc_fields claims_table_def
      sparse_claims_def numeric_claims_def demo_header_def protectedHeader_def)

lemma run_jwtVerify_sparse:
  "jwtVerify (stub_jose claims_table) ''seg.segA.sigk-seg_segA'' (Pub 1)
      ''jwt-generator-app'' ''jwt-generator-api'' 1000 = Inr sparse_claims"
  by (simp add: verify_defs stub_defs claims_table_def
      sparse_claims_def numeric_claims_def demo_header_def protectedHeader_def)

section \<open>Malformed tokens\<close>

text \<open>
  C6, as the code has it. A string that does not hold exactly two dots never reaches
  the signature check: jose rejects it as an invalid compact JWS, which is neither of the
  two classes the \<open>catch\<close> of \<open>verifyToken\<close> singles out, so the caller gets the
  \<open>Error\<close> with the message \<open>Token verification failed\<close>. This holds in every state of
  the key service and at every time; the outcome is always this error value.
\<close>

theorem verifyToken_malformed:
  assumes "count_dots token \<noteq> 2"
  shows "verifyToken L svc ks now token = Inl (Error ''Token verification failed'')"
proof (cases "getPublicKey ks")
  case (Inl e)
  then have "e = Error ''Public key not initialized''"
    by (auto simp: getPublicKey_def split: option.splits)
  with Inl show ?thesis by (simp add: verifyToken_def)
next
  case (Inr key)
  from assms have "length (split_dot token) \<noteq> 3"
    by (simp add: length_split_dot)
  then have "jwtVerify L token key (issuer svc) (audience svc) now = Inl JWSInvalid"
    by (simp add: jwtVerify_def compactVerify_not_three)
  with Inr show ?thesis by (simp add: verifyToken_def)
qed

text \<open>The theorem on a string with no dot and on one with three.\<close>

theorem verifyToken_malformed_witness:
  "count_dots ''not-a-token'' \<noteq> 2
   \<and> verifyToken (stub_jose (demo_table ''1h'' 3600)) (demo_svc ''1h'') demo_ks 1000 ''not-a-token''
       = Inl (Error ''Token verification failed'')
   \<and> count_dots ''a.b.c.d'' \<noteq> 2
   \<and> verifyToken (stub_jose (demo_table ''1h'' 3600)) (demo_svc ''1h'') demo_ks 1000 ''a.b.c.d''
       = Inl (Error ''Token verification failed'')"
proof -
  have a: "count_dots ''not-a-token'' \<noteq> 2" and b: "count_dots ''a.b.c.d'' \<noteq> 2"
    by (simp_all add: count_dots_def)
  from verifyToken_malformed
         [OF a, of "stub_jose (demo_table ''1h'' 3600)" "demo_svc ''1h''" demo_ks 1000]
       verifyToken_malformed
         [OF b, of "stub_jose (demo_table ''1h'' 3600)" "demo_svc ''1h''" demo_ks 1000]
       a b
  show ?thesis by simp
qed

text \<open>
  C6 as stated asks for an error of its own for malformed input. The service has a
  message for invalid tokens, \<open>Invalid token\<close>, but a malformed string does not get it:
  it gets the catch-all, the very value a well-formed token with a forged signature gets.
\<close>

theorem malformed_token_gets_generic_error:
  "verifyToken (stub_jose (demo_table ''1h'' 3600)) (demo_svc ''1h'') demo_ks 1000 ''abc''
     \<noteq> Inl (Error ''Invalid token'')
   \<and> jwtVerify (stub_jose (demo_table ''1h'' 3600)) ''seg.segA.forged'' (Pub 1)
        ''jwt-generator-app'' ''jwt-generator-api'' 1000
     = Inl JWSSignatureVerificationFailed
   \<and> verifyToken (stub_jose (demo_table ''1h'' 3600)) (demo_svc ''1h'') demo_ks 1000 ''abc''
     = verifyToken (stub_jose (demo_table ''1h'' 3600)) (demo_svc ''1h'') demo_ks 1000
         ''seg.segA.forged''"
  by (simp add: verify_defs stub_defs demo_ks_fields demo_svc_fields demo_table_def
      demo_header_def protectedHeader_def)

section \<open>Round trip and expiry\<close>




text \<open>
  C5. Under the same conditions on the keys and the library, a token issued with a time
  span that jose reads as one second, the issuance reading the clock as \<open>t_iat\<close> and then
  as \<open>t_exp\<close>, is rejected at every time \<open>now' \<ge> t_exp + 2\<close>, that is two or more seconds
  after the issuance, with the \<open>Error\<close> whose message is \<open>Token has expired\<close>.
\<close>

theorem expired_token_rejected:
  assumes "privateKey ks = Some priv" and "publicKey ks = Some pub"
    and "jose_secs L (expirationTime svc) = Some 1"
    and "codec_ok L (protectedHeader (keyId ks))" and "codec_ok L (claimsSet svc t_iat t_exp 1 c)"
    and "signature_ok L priv pub
           (jose_encode L (protectedHeader (keyId ks)) @ ''.''
              @ jose_encode L (claimsSet svc t_iat t_exp 1 c))"
    and "t_exp + 2 \<le> now'"
  shows "\<exists>resp. generateToken L svc ks t_iat t_exp c = Inr resp
           \<and> verifyToken L svc ks now' (access_token resp) = Inl (Error ''Token has expired'')"
proof -
  let ?data = "jose_encode L (protectedHeader (keyId ks)) @ ''.''
                 @ jose_encode L (claimsSet svc t_iat t_exp 1 c)"
  from assms(6) obtain s where s: "jose_sign L ''RS256'' priv ?data = Inr s"
    and nodot: "CHR ''.'' \<notin> set s"
    and vf: "jose_verify L ''RS256'' pub s ?data = Inr True"
    by (auto simp: signature_ok_def split: sum.splits)
  have gen: "generateToken L svc ks t_iat t_exp c =
           Inr \<lparr>access_token = ?data @ ''.'' @ s, token_type = ''Bearer'',
                 expires_in = calculateExpirationSeconds (expirationTime svc)\<rparr>"
    using generateToken_issued [OF assms(1) assms(3) s] by simp
  have "jwtVerify L (?data @ ''.'' @ s) pub (issuer svc) (audience svc) now' = Inl JWTExpired"
    using jwtVerify_issued [OF assms(4) assms(5) s nodot vf, of now'] assms(7) by simp
  then have "verifyToken L svc ks now' (?data @ ''.'' @ s) = Inl (Error ''Token has expired'')"
    using assms(2) by (simp add: verifyToken_def getPublicKey_def)
  with gen show ?thesis by simp
qed

text \<open>The theorem on a token issued in second 1000 with \<open>1s\<close> and verified at second 1002.\<close>

theorem expired_token_rejected_witness:
  "jose_secs (stub_jose (demo_table ''1s'' 1)) (expirationTime (demo_svc ''1s'')) = Some 1
   \<and> generateToken (stub_jose (demo_table ''1s'' 1)) (demo_svc ''1s'') demo_ks 1000 1000 demo_claims
       = Inr \<lparr>access_token = ''seg.segA.sigk-seg_segA'', token_type = ''Bearer'',
              expires_in = Number 1\<rparr>
   \<and> verifyToken (stub_jose (demo_table ''1s'' 1)) (demo_svc ''1s'') demo_ks 1002
         ''seg.segA.sigk-seg_segA''
       = Inl (Error ''Token has expired'')"
proof -
  let ?L = "stub_jose (demo_table ''1s'' 1)"
  have span: "jose_secs ?L (expirationTime (demo_svc ''1s'')) = Some 1"
    by (simp add: demo_secs_jose demo_svc_fields demo_secs)
  have gen: "generateToken ?L (demo_svc ''1s'') demo_ks 1000 1000 demo_claims
       = Inr \<lparr>access_token = ''seg.segA.sigk-seg_segA'', token_type = ''Bearer'',
              expires_in = Number 1\<rparr>"
    by (simp add: run_generate demo_secs calc_demo)
  from expired_token_rejected
         [where ks = demo_ks and priv = "Priv 1" and pub = "Pub 1" and L = ?L
            and svc = "demo_svc ''1s''" and t_iat = 1000 and t_exp = 1000 and c = demo_claims
            and now' = 1002,
          OF demo_ks_fields(1) demo_ks_fields(2) span
             demo_header_codec demo_claims_codec demo_signature]
  obtain resp where
    r: "generateToken ?L (demo_svc ''1s'') demo_ks 1000 1000 demo_claims = Inr resp"
    and v: "verifyToken ?L (demo_svc ''1s'') demo_ks 1002 (access_token resp)
       = Inl (Error ''Token has expired'')"
    by auto
  from r gen have "access_token resp = ''seg.segA.sigk-seg_segA''" by auto
  with v span gen show ?thesis by simp
qed

section \<open>Time spans with an unknown unit\<close>

text \<open>
  C4, as the code has it. When the last character of the configured time span, in lower
  case, is none of \<open>s\<close>, \<open>m\<close>, \<open>h\<close>, \<open>d\<close>, \<open>calculateExpirationSeconds\<close> answers 3600
  and raises nothing. Issuance then fails only where it fails for any configuration, with
  the \<open>Error\<close> \<open>Token generation failed\<close> (in particular when jose cannot parse the time
  span); whenever jose accepts the time span and signing succeeds, issuance succeeds and
  reports \<open>expires_in = 3600\<close>.
\<close>

theorem unknown_unit_defaults_to_one_hour:
  assumes "toLowerCase (slice_last (expirationTime svc)) \<notin> {''s'', ''m'', ''h'', ''d''}"
  shows "calculateExpirationSeconds (expirationTime svc) = Number 3600
    \<and> (jose_secs L (expirationTime svc) = None
        \<longrightarrow> generateToken L svc ks t_iat t_exp c = Inl (Error ''Token generation failed''))
    \<and> (privateKey ks = Some key \<and> jose_secs L (expirationTime svc) = Some span
        \<and> jose_sign L ''RS256'' key
             (jose_encode L (protectedHeader (keyId ks)) @ ''.''
                @ jose_encode L (claimsSet svc t_iat t_exp span c)) = Inr s
        \<longrightarrow> generateToken L svc ks t_iat t_exp c
            = Inr \<lparr>access_token = jose_encode L (protectedHeader (keyId ks)) @ ''.''
                      @ jose_encode L (claimsSet svc t_iat t_exp span c) @ ''.'' @ s,
                   token_type = ''Bearer'', expires_in = Number 3600\<rparr>)
    \<and> (generateToken L svc ks t_iat t_exp c = Inl e \<longrightarrow> e = Error ''Token generation failed'')"
proof -
  have calc: "calculateExpirationSeconds (expirationTime svc) = Number 3600"
    using assms by (simp add: calculateExpirationSeconds_def Let_def)
  have rej: "jose_secs L (expirationTime svc) = None
        \<Longrightarrow> generateToken L svc ks t_iat t_exp c = Inl (Error ''Token generation failed'')"
    by (simp add: generateToken_def split: sum.splits)
  have acc: "privateKey ks = Some key \<Longrightarrow> jose_secs L (expirationTime svc) = Some span
        \<Longrightarrow> jose_sign L ''RS256'' key
             (jose_encode L (protectedHeader (keyId ks)) @ ''.''
                @ jose_encode L (claimsSet svc t_iat t_exp span c)) = Inr s
        \<Longrightarrow> generateToken L svc ks t_iat t_exp c
            = Inr \<lparr>access_token = jose_encode L (protectedHeader (keyId ks)) @ ''.''
                      @ jose_encode L (claimsSet svc t_iat t_exp span c) @ ''.'' @ s,
                   token_type = ''Bearer'', expires_in = Number 3600\<rparr>"
    using generateToken_issued [of ks key L svc span t_iat t_exp c s] calc by simp
  have err: "generateToken L svc ks t_iat t_exp c = Inl e \<Longrightarrow> e = Error ''Token generation failed''"
    by (auto simp: generateToken_def split: sum.splits option.splits)
  from calc rej acc err show ?thesis by blast
qed

text \<open>The theorem on the time span \<open>1y\<close>, which jose reads as a year.\<close>

theorem unknown_unit_defaults_to_one_hour_witness:
  "toLowerCase (slice_last (expirationTime (demo_svc ''1y''))) \<notin> {''s'', ''m'', ''h'', ''d''}
   \<and> jose_secs (stub_jose (demo_table ''1y'' 31557600)) (expirationTime (demo_svc ''1y''))
       = Some 31557600
   \<and> calculateExpirationSeconds (expirationTime (demo_svc ''1y'')) = Number 3600
   \<and> generateToken (stub_jose (demo_table ''1y'' 31557600)) (demo_svc ''1y'') demo_ks 1000 1000
        demo_claims
       = Inr \<lparr>access_token = ''seg.segA.sigk-seg_segA'', token_type = ''Bearer'',
              expires_in = Number 3600\<rparr>"
proof -
  let ?L = "stub_jose (demo_table ''1y'' 31557600)"
  have unit: "toLowerCase (slice_last (expirationTime (demo_svc ''1y'')))
                \<notin> {''s'', ''m'', ''h'', ''d''}"
    by (simp add: demo_svc_fields toLowerCase_def slice_last_def)
  have span: "jose_secs ?L (expirationTime (demo_svc ''1y'')) = Some 31557600"
    by (simp add: demo_secs_jose demo_svc_fields demo_secs)
  have sg: "jose_sign ?L ''RS256'' (Priv 1)
             (jose_encode ?L (protectedHeader (keyId demo_ks)) @ ''.''
                @ jose_encode ?L (claimsSet (demo_svc ''1y'') 1000 1000 31557600 demo_claims))
            = Inr ''sigk-seg_segA''"
    by (simp add: stub_defs demo_table_def demo_header_def demo_ks_fields
        demo_claims_neq_header [unfolded demo_header_def])
  have tok: "jose_encode ?L (protectedHeader (keyId demo_ks)) @ ''.''
                @ jose_encode ?L (claimsSet (demo_svc ''1y'') 1000 1000 31557600 demo_claims)
                @ ''.'' @ ''sigk-seg_segA'' = ''seg.segA.sigk-seg_segA''"
    by (simp add: stub_defs demo_table_def demo_header_def demo_ks_fields
        demo_claims_neq_header [unfolded demo_header_def])
  from unknown_unit_defaults_to_one_hour
         [OF unit, where L = ?L and ks = demo_ks and t_iat = 1000 and t_exp = 1000
            and c = demo_claims and key = "Priv 1" and span = 31557600
            and s = "''sigk-seg_segA''"]
       demo_ks_fields(1) span sg tok unit
  show ?thesis by simp
qed

text \<open>
  C4 as stated fails on the time span \<open>1w\<close>. Its unit is none of the four, jose reads it
  as a week, and issuance succeeds, reporting \<open>expires_in = 3600\<close>.
\<close>

theorem unknown_unit_silently_accepted:
  "toLowerCase (slice_last ''1w'') \<notin> {''s'', ''m'', ''h'', ''d''}
   \<and> generateToken (stub_jose (demo_table ''1w'' 604800)) (demo_svc ''1w'') demo_ks 1000 1000
        demo_claims
       = Inr \<lparr>access_token = ''seg.segA.sigk-seg_segA'', token_type = ''Bearer'',
              expires_in = Number 3600\<rparr>"
  by (simp add: run_generate demo_secs calc_demo toLowerCase_def slice_last_def)

section \<open>The object returned by verification\<close>

text \<open>
  C10, as the code has it. Whenever \<open>verifyToken\<close> accepts a token, jose has returned its
  claim set, and the returned object is built from it as follows: a \<open>sub\<close>, \<open>username\<close> or
  \<open>email\<close> that is missing becomes the empty string, and one that is a string is returned
  as it is; an \<open>aud\<close> that is a string is returned as it is, an \<open>aud\<close> that is an array
  starting with a string becomes that string, and an empty array becomes the empty string.
  So the four fields are strings whenever the claims present in the token are.
\<close>

theorem verifyToken_string_fields:
  assumes "verifyToken L svc ks now token = Inr r"
  shows "\<exists>key claims. publicKey ks = Some key
      \<and> jwtVerify L token key (issuer svc) (audience svc) now = Inr claims
      \<and> (map_of claims ''sub'' = None \<longrightarrow> p_sub r = JStr [])
      \<and> (\<forall>s. map_of claims ''sub'' = Some (JStr s) \<longrightarrow> p_sub r = JStr s)
      \<and> (map_of claims ''username'' = None \<longrightarrow> p_username r = JStr [])
      \<and> (\<forall>s. map_of claims ''username'' = Some (JStr s) \<longrightarrow> p_username r = JStr s)
      \<and> (map_of claims ''email'' = None \<longrightarrow> p_email r = JStr [])
      \<and> (\<forall>s. map_of claims ''email'' = Some (JStr s) \<longrightarrow> p_email r = JStr s)
      \<and> (\<forall>s. map_of claims ''aud'' = Some (JStr s) \<longrightarrow> p_aud r = JStr s)
      \<and> (\<forall>s rest. map_of claims ''aud'' = Some (JArr (JStr s # rest)) \<longrightarrow> p_aud r = JStr s)
      \<and> (map_of claims ''aud'' = Some (JArr []) \<longrightarrow> p_aud r = JStr [])"
proof -
  from assms obtain key where key: "publicKey ks = Some key"
    by (auto simp: verifyToken_def getPublicKey_def split: option.splits)
  with assms obtain claims where
    v: "jwtVerify L token key (issuer svc) (audience svc) now = Inr claims"
    and r: "r = toJWTPayload claims"
    by (auto simp: verifyToken_def getPublicKey_def split: sum.splits)
  have "(map_of claims ''sub'' = None \<longrightarrow> p_sub r = JStr [])
      \<and> (\<forall>s. map_of claims ''sub'' = Some (JStr s) \<longrightarrow> p_sub r = JStr s)
      \<and> (map_of claims ''username'' = None \<longrightarrow> p_username r = JStr [])
      \<and> (\<forall>s. map_of claims ''username'' = Some (JStr s) \<longrightarrow> p_username r = JStr s)
      \<and> (map_of claims ''email'' = None \<longrightarrow> p_email r = JStr [])
      \<and> (\<forall>s. map_of claims ''email'' = Some (JStr s) \<longrightarrow> p_email r = JStr s)
      \<and> (\<forall>s. map_of claims ''aud'' = Some (JStr s) \<longrightarrow> p_aud r = JStr s)
      \<and> (\<forall>s rest. map_of claims ''aud'' = Some (JArr (JStr s # rest)) \<longrightarrow> p_aud r = JStr s)
      \<and> (map_of claims ''aud'' = Some (JArr []) \<longrightarrow> p_aud r = JStr [])"
    unfolding r toJWTPayload_def Let_def
    by (simp add: or_else_def aud_of_def first_of_def)
  with key v show ?thesis
    by (intro exI [of _ key] exI [of _ claims]) simp
qed

text \<open>
  The theorem on a signed token whose claim set has a \<open>sub\<close>, no \<open>username\<close>, no
  \<open>email\<close>, and an array for \<open>aud\<close>.
\<close>

theorem verifyToken_string_fields_witness:
  "verifyToken (stub_jose claims_table) (demo_svc ''1h'') demo_ks 1000 ''seg.segA.sigk-seg_segA''
     = Inr \<lparr>p_sub = JStr ''u1'', p_username = JStr [], p_email = JStr [],
            p_iat = None, p_exp = None, p_iss = Some (JStr ''jwt-generator-app''),
            p_aud = JStr ''jwt-generator-api''\<rparr>
   \<and> jwtVerify (stub_jose claims_table) ''seg.segA.sigk-seg_segA'' (Pub 1)
        ''jwt-generator-app'' ''jwt-generator-api'' 1000 = Inr sparse_claims
   \<and> map_of sparse_claims ''sub'' = Some (JStr ''u1'')
   \<and> map_of sparse_claims ''username'' = None
   \<and> map_of sparse_claims ''email'' = None
   \<and> map_of sparse_claims ''aud'' = Some (JArr [JStr ''jwt-generator-api'', JStr ''other''])"
proof -
  from verifyToken_string_fields [OF run_verify_sparse]
  obtain key claims where "publicKey demo_ks = Some key"
    and "jwtVerify (stub_jose claims_table) ''seg.segA.sigk-seg_segA'' key
          (issuer (demo_svc ''1h'')) (audience (demo_svc ''1h'')) 1000 = Inr claims"
    by (elim exE conjE)
  then have "jwtVerify (stub_jose claims_table) ''seg.segA.sigk-seg_segA'' (Pub 1)
        ''jwt-generator-app'' ''jwt-generator-api'' 1000 = Inr claims"
    by (simp add: demo_ks_fields demo_svc_fields)
  with run_jwtVerify_sparse have same: "claims = sparse_claims"
    by simp
  have maps: "map_of sparse_claims ''sub'' = Some (JStr ''u1'')"
    "map_of sparse_claims ''username'' = None"
    "map_of sparse_claims ''email'' = None"
    "map_of sparse_claims ''aud'' = Some (JArr [JStr ''jwt-generator-api'', JStr ''other''])"
    by (simp_all add: sparse_claims_def)
  from same run_verify_sparse run_jwtVerify_sparse maps show ?thesis
    by simp
qed

text \<open>
  C10 as stated fails on a signed token whose \<open>username\<close> claim is the number 42:
  \<open>verifyToken\<close> accepts it and returns the number, not a string.
\<close>

theorem verifyToken_returns_non_string_username:
  "verifyToken (stub_jose claims_table) (demo_svc ''1h'') demo_ks 1000 ''seg.segAA.sigk-seg_segAA''
     = Inr \<lparr>p_sub = JStr ''u1'', p_username = JNum 42, p_email = JStr ''a@example.com'',
            p_iat = None, p_exp = None, p_iss = Some (JStr ''jwt-generator-app''),
            p_aud = JStr ''jwt-generator-api''\<rparr>"
  by (simp add: verify_defs stub_defs demo_ks_fields demo_svc_fields claims_table_def
      sparse_claims_def numeric_claims_def demo_header_def protectedHeader_def)

section \<open>No private key material in tokens or in the JWKS document\<close>

text \<open>
  C2. The JWKS document does not depend on the private key held by the service, nor on
  the private components \<open>d\<close>, \<open>p\<close>, \<open>q\<close>, \<open>dp\<close>, \<open>dq\<close>, \<open>qi\<close> of an exported JWK: when
  \<open>getJWKS\<close> succeeds, the document has one entry whose fields \<open>kty\<close>, \<open>n\<close>, \<open>e\<close> come
  from the export of the public key, whose \<open>kid\<close> is the key id, and whose other fields
  are constants. An issued token is the encoded header, the encoded claim set and the
  signature: header and claim set are built from the key id, the configuration, the clock
  and the caller's claims, and the private key enters the signature only.
\<close>

theorem private_key_not_serialized:
  "fst (getJWKS L (ks\<lparr>privateKey := x\<rparr>) n) = fst (getJWKS L ks n)
   \<and> toJWKSKey kid (j\<lparr>jwk_d := d, jwk_p := p, jwk_q := q, jwk_dp := dp, jwk_dq := dq,
                      jwk_qi := qi\<rparr>) = toJWKSKey kid j
   \<and> (fst (getJWKS L ks n) = Inr doc \<longrightarrow>
        (\<exists>k j'. publicKey ks = Some k \<and> jose_exportJWK L k = Inr j'
           \<and> jwks_keys doc =
               [\<lparr>k_kty = str_or (jwk_kty j') ''RSA'', k_use = ''sig'', k_key_ops = [''verify''],
                 k_alg = ''RS256'', k_kid = keyId ks, k_n = str_or (jwk_n j') [],
                 k_e = str_or (jwk_e j') []\<rparr>]))
   \<and> (generateToken L svc ks t_iat t_exp c = Inr resp \<longrightarrow>
        (\<exists>key span s. privateKey ks = Some key \<and> jose_secs L (expirationTime svc) = Some span
           \<and> jose_sign L ''RS256'' key
                (jose_encode L (protectedHeader (keyId ks)) @ ''.''
                   @ jose_encode L (claimsSet svc t_iat t_exp span c)) = Inr s
           \<and> access_token resp =
               jose_encode L (protectedHeader (keyId ks)) @ ''.''
                 @ jose_encode L (claimsSet svc t_iat t_exp span c) @ ''.'' @ s))"
proof -
  have a: "fst (getJWKS L (ks\<lparr>privateKey := x\<rparr>) n) = fst (getJWKS L ks n)"
    by (simp add: getJWKS_def split: option.splits sum.splits)
  have b: "toJWKSKey kid (j\<lparr>jwk_d := d, jwk_p := p, jwk_q := q, jwk_dp := dp, jwk_dq := dq,
                      jwk_qi := qi\<rparr>) = toJWKSKey kid j"
    by (simp add: toJWKSKey_def)
  have c: "fst (getJWKS L ks n) = Inr doc \<Longrightarrow>
        (\<exists>k j'. publicKey ks = Some k \<and> jose_exportJWK L k = Inr j'
           \<and> jwks_keys doc =
               [\<lparr>k_kty = str_or (jwk_kty j') ''RSA'', k_use = ''sig'', k_key_ops = [''verify''],
                 k_alg = ''RS256'', k_kid = keyId ks, k_n = str_or (jwk_n j') [],
                 k_e = str_or (jwk_e j') []\<rparr>])"
    by (auto simp: getJWKS_def toJWKSKey_def split: option.splits sum.splits)
  have d: "generateToken L svc ks t_iat t_exp c = Inr resp \<Longrightarrow>
        (\<exists>key span s. privateKey ks = Some key \<and> jose_secs L (expirationTime svc) = Some span
           \<and> jose_sign L ''RS256'' key
                (jose_encode L (protectedHeader (keyId ks)) @ ''.''
                   @ jose_encode L (claimsSet svc t_iat t_exp span c)) = Inr s
           \<and> access_token resp =
               jose_encode L (protectedHeader (keyId ks)) @ ''.''
                 @ jose_encode L (claimsSet svc t_iat t_exp span c) @ ''.'' @ s)"
    by (auto simp: generateToken_def getPrivateKey_def getKeyId_def compactSign_def Let_def
        split: option.splits sum.splits)
  from a b c d show ?thesis by blast
qed

text \<open>
  The theorem on the initialised service: the document is the same with another private
  key in place, and the issued token is header, claim set and a signature.
\<close>

theorem private_key_not_serialized_witness:
  "fst (getJWKS (stub_jose (demo_table ''1h'' 3600)) (demo_ks\<lparr>privateKey := Some (Priv 9)\<rparr>) 0)
     = fst (getJWKS (stub_jose (demo_table ''1h'' 3600)) demo_ks 0)
   \<and> fst (getJWKS (stub_jose (demo_table ''1h'' 3600)) demo_ks 0) = Inr demo_jwks
   \<and> generateToken (stub_jose (demo_table ''1h'' 3600)) (demo_svc ''1h'') demo_ks 1000 1000 demo_claims
       = Inr \<lparr>access_token = ''seg.segA.sigk-seg_segA'', token_type = ''Bearer'',
              expires_in = Number 3600\<rparr>
   \<and> (\<exists>s. ''seg.segA.sigk-seg_segA''
         = jose_encode (stub_jose (demo_table ''1h'' 3600)) (protectedHeader ''default-key-id'')
           @ ''.''
           @ jose_encode (stub_jose (demo_table ''1h'' 3600))
               (claimsSet (demo_svc ''1h'') 1000 1000 3600 demo_claims)
           @ ''.'' @ s)"
proof -
  let ?L = "stub_jose (demo_table ''1h'' 3600)"
  let ?resp = "\<lparr>access_token = ''seg.segA.sigk-seg_segA'', token_type = ''Bearer'',
              expires_in = Number 3600\<rparr>"
  have doc: "fst (getJWKS ?L demo_ks 0) = Inr demo_jwks"
    by (simp add: run_getJWKS)
  have gen: "generateToken ?L (demo_svc ''1h'') demo_ks 1000 1000 demo_claims = Inr ?resp"
    by (simp add: run_generate demo_secs calc_demo)
  have span: "jose_secs ?L (expirationTime (demo_svc ''1h'')) = Some 3600"
    by (simp add: demo_secs_jose demo_svc_fields demo_secs)
  note inst = private_key_not_serialized
      [where L = ?L and ks = demo_ks and x = "Some (Priv 9)" and n = 0 and doc = demo_jwks
         and svc = "demo_svc ''1h''" and t_iat = 1000 and t_exp = 1000 and c = demo_claims
         and resp = ?resp]
  have same: "fst (getJWKS ?L (demo_ks\<lparr>privateKey := Some (Priv 9)\<rparr>) 0)
     = fst (getJWKS ?L demo_ks 0)"
    by (rule inst [THEN conjunct1])
  from inst [THEN conjunct2, THEN conjunct2, THEN conjunct2, THEN mp, OF gen]
  obtain key span' s where
    "jose_secs ?L (expirationTime (demo_svc ''1h'')) = Some span'"
    and tok: "access_token ?resp =
               jose_encode ?L (protectedHeader (keyId demo_ks)) @ ''.''
                 @ jose_encode ?L (claimsSet (demo_svc ''1h'') 1000 1000 span' demo_claims) @ ''.'' @ s"
    by blast
  with span have "span' = 3600" by simp
  with tok have "''seg.segA.sigk-seg_segA''
         = jose_encode ?L (protectedHeader ''default-key-id'') @ ''.''
           @ jose_encode ?L (claimsSet (demo_svc ''1h'') 1000 1000 3600 demo_claims) @ ''.'' @ s"
    by (simp add: demo_ks_fields)
  then have "\<exists>s. ''seg.segA.sigk-seg_segA''
         = jose_encode ?L (protectedHeader ''default-key-id'') @ ''.''
           @ jose_encode ?L (claimsSet (demo_svc ''1h'') 1000 1000 3600 demo_claims) @ ''.'' @ s"
    by (rule exI)
  with same doc gen show ?thesis by (intro conjI)
qed

end
